theory Spec2Isabelle
  imports Complex_Main
begin

section \<open>Numbers\<close>

text \<open>
  A JavaScript number is an IEEE 754 double: NaN, the two infinities, or a finite value.
  A finite value is held as the real it denotes; the two zeros are one value, as
  \<open>===\<close> sees them (the popup never divides by a zero, the only place where their
  sign would show). Every arithmetic operation computes the exact real result and rounds
  it once to the nearest double, ties to the even mantissa, overflowing to an infinity.
\<close>

datatype number = NaN | PInf | NInf | Fin real

text \<open>Rounding a real to the nearest integer, a tie to the even one.\<close>

definition roundHalfEven :: "real \<Rightarrow> int" where
  "roundHalfEven t =
     (let f = \<lfloor>t\<rfloor>; d = t - of_int f
      in if d < 1 / 2 then f
         else if d > 1 / 2 then f + 1
         else if even f then f else f + 1)"

text \<open>
  The doubles around a real \<open>v\<close> are the multiples of \<open>2 ^ e\<close>, where \<open>e\<close> is
  the exponent of \<open>v\<close>'s binade less the 52 fraction bits, and \<open>- 1074\<close> among the
  subnormals.
\<close>

definition quantumExponent :: "real \<Rightarrow> int" where
  "quantumExponent v = max (\<lfloor>log 2 \<bar>v\<bar>\<rfloor> - 52) (- 1074)"

text \<open>
  Round to nearest, ties to even. A result of magnitude \<open>2 ^ 1024\<close> is beyond the
  largest double and is the infinity of the sign.
\<close>

definition rnd :: "real \<Rightarrow> number" where
  "rnd v =
     (if v = 0 then Fin 0
      else
        (let q = 2 powi quantumExponent v;
             r = of_int (roundHalfEven (v / q)) * q
         in if \<bar>r\<bar> \<ge> 2 ^ 1024 then (if v > 0 then PInf else NInf) else Fin r))"

text \<open>Unary minus, \<open>+\<close>, \<open>-\<close>, \<open>*\<close>, \<open>/ 2\<close>, \<open><\<close> and \<open>>\<close> on numbers.\<close>

fun js_neg :: "number \<Rightarrow> number" where
  "js_neg NaN = NaN"
| "js_neg PInf = NInf"
| "js_neg NInf = PInf"
| "js_neg (Fin a) = Fin (- a)"

fun js_add :: "number \<Rightarrow> number \<Rightarrow> number" where
  "js_add NaN b = NaN"
| "js_add a NaN = NaN"
| "js_add PInf NInf = NaN"
| "js_add NInf PInf = NaN"
| "js_add PInf b = PInf"
| "js_add a PInf = PInf"
| "js_add NInf b = NInf"
| "js_add a NInf = NInf"
| "js_add (Fin a) (Fin b) = rnd (a + b)"

definition js_sub :: "number \<Rightarrow> number \<Rightarrow> number" where
  "js_sub a b = js_add a (js_neg b)"

fun js_mul :: "number \<Rightarrow> number \<Rightarrow> number" where
  "js_mul NaN b = NaN"
| "js_mul a NaN = NaN"
| "js_mul PInf PInf = PInf"
| "js_mul PInf NInf = NInf"
| "js_mul NInf PInf = NInf"
| "js_mul NInf NInf = PInf"
| "js_mul PInf (Fin b) = (if b = 0 then NaN else if b > 0 then PInf else NInf)"
| "js_mul NInf (Fin b) = (if b = 0 then NaN else if b > 0 then NInf else PInf)"
| "js_mul (Fin a) PInf = (if a = 0 then NaN else if a > 0 then PInf else NInf)"
| "js_mul (Fin a) NInf = (if a = 0 then NaN else if a > 0 then NInf else PInf)"
| "js_mul (Fin a) (Fin b) = rnd (a * b)"

fun js_half :: "number \<Rightarrow> number" where
  "js_half NaN = NaN"
| "js_half PInf = PInf"
| "js_half NInf = NInf"
| "js_half (Fin a) = rnd (a / 2)"

fun js_lt :: "number \<Rightarrow> number \<Rightarrow> bool" where
  "js_lt NaN b = False"
| "js_lt a NaN = False"
| "js_lt a NInf = False"
| "js_lt PInf b = False"
| "js_lt NInf b = True"
| "js_lt a PInf = True"
| "js_lt (Fin a) (Fin b) = (a < b)"

definition js_gt :: "number \<Rightarrow> number \<Rightarrow> bool" where
  "js_gt a b = js_lt b a"

text \<open>\<open>!n\<close> of a number: NaN and zero are falsy.\<close>

fun falsy_number :: "number \<Rightarrow> bool" where
  "falsy_number NaN = True"
| "falsy_number (Fin a) = (a = 0)"
| "falsy_number PInf = False"
| "falsy_number NInf = False"

text \<open>
  \<open>Math.round\<close> gives the nearest integer, a half upwards; it is exact.
  \<open>Math.sqrt\<close> is the correctly rounded square root, NaN below zero. \<open>Math.abs\<close> is
  the magnitude. \<open>Math.pow(n, 2)\<close>, which the language leaves to the implementation,
  is taken as the product \<open>n * n\<close>, which is what the fdlibm \<open>pow\<close> of the common
  engines returns for the exponent 2.
\<close>

fun Math_round :: "number \<Rightarrow> number" where
  "Math_round NaN = NaN"
| "Math_round PInf = PInf"
| "Math_round NInf = NInf"
| "Math_round (Fin a) = Fin (of_int \<lfloor>a + 1 / 2\<rfloor>)"

fun Math_sqrt :: "number \<Rightarrow> number" where
  "Math_sqrt NaN = NaN"
| "Math_sqrt PInf = PInf"
| "Math_sqrt NInf = NaN"
| "Math_sqrt (Fin a) = (if a < 0 then NaN else rnd (sqrt a))"

fun Math_abs :: "number \<Rightarrow> number" where
  "Math_abs NaN = NaN"
| "Math_abs PInf = PInf"
| "Math_abs NInf = PInf"
| "Math_abs (Fin a) = Fin \<bar>a\<bar>"

definition Math_pow_2 :: "number \<Rightarrow> number" where
  "Math_pow_2 n = js_mul n n"

section \<open>Points\<close>

text \<open>
  \<open>Point\<close> of the package point-geometry: \<open>new Point(x, y)\<close>, \<open>add\<close>
  (a new point, the componentwise sum), \<open>round\<close> (a new point, each component
  rounded) and \<open>Point.convert\<close> (a point is returned as it is, an array
  \<open>[a, b]\<close> becomes \<open>new Point(a, b)\<close>).
\<close>

datatype Point = Point (x: number) (y: number)

definition Point_add :: "Point \<Rightarrow> Point \<Rightarrow> Point" where
  "Point_add p q = Point (js_add (x p) (x q)) (js_add (y p) (y q))"

definition Point_round :: "Point \<Rightarrow> Point" where
  "Point_round p = Point (Math_round (x p)) (Math_round (y p))"

datatype PointLike = PointObject Point | PointArray number number

fun Point_convert :: "PointLike \<Rightarrow> Point" where
  "Point_convert (PointObject p) = p"
| "Point_convert (PointArray a b) = Point a b"

section \<open>Offsets\<close>

text \<open>
  \<open>type Offset = number | PointLike | {[Anchor]: PointLike}\<close>. The option is
  optional, so \<open>normalizeOffset\<close> takes an \<open>Offset option\<close>. An anchor is a
  string; the nine anchor names are the keys of every table \<open>normalizeOffset\<close>
  returns.
\<close>

datatype Offset =
    OffsetNumber number
  | OffsetPoint PointLike
  | OffsetMap "string \<Rightarrow> PointLike option"

type_synonym OffsetTable = "(string \<times> Point) list"

definition anchorNames :: "string list" where
  "anchorNames = [''center'', ''top'', ''top-left'', ''top-right'', ''bottom'',
     ''bottom-left'', ''bottom-right'', ''left'', ''right'']"

text \<open>
  \<open>!offset\<close>: undefined and the numbers 0 and NaN are falsy, every object is truthy.
\<close>

fun falsy_offset :: "Offset option \<Rightarrow> bool" where
  "falsy_offset None = True"
| "falsy_offset (Some (OffsetNumber r)) = falsy_number r"
| "falsy_offset (Some (OffsetPoint pl)) = False"
| "falsy_offset (Some (OffsetMap m)) = False"

text \<open>\<open>offset[k] || [0, 0]\<close> of the per-anchor branch.\<close>

definition entry_or_zero :: "(string \<Rightarrow> PointLike option) \<Rightarrow> string \<Rightarrow> PointLike" where
  "entry_or_zero m k = (case m k of None \<Rightarrow> PointArray (Fin 0) (Fin 0) | Some v \<Rightarrow> v)"

function normalizeOffset :: "Offset option \<Rightarrow> OffsetTable" where
  "normalizeOffset None =
     normalizeOffset (Some (OffsetPoint (PointObject (Point (Fin 0) (Fin 0)))))"
| "normalizeOffset (Some (OffsetNumber r)) =
     (if falsy_number r
      then normalizeOffset (Some (OffsetPoint (PointObject (Point (Fin 0) (Fin 0)))))
      else
        (let cornerOffset = Math_round (Math_sqrt (js_mul (Fin 0.5) (Math_pow_2 r))) in
          [(''center'', Point (Fin 0) (Fin 0)),
           (''top'', Point (Fin 0) r),
           (''top-left'', Point cornerOffset cornerOffset),
           (''top-right'', Point (js_neg cornerOffset) cornerOffset),
           (''bottom'', Point (Fin 0) (js_neg r)),
           (''bottom-left'', Point cornerOffset (js_neg cornerOffset)),
           (''bottom-right'', Point (js_neg cornerOffset) (js_neg cornerOffset)),
           (''left'', Point r (Fin 0)),
           (''right'', Point (js_neg r) (Fin 0))]))"
| "normalizeOffset (Some (OffsetPoint pl)) =
     (let convertedOffset = Point_convert pl in
       [(''center'', convertedOffset),
        (''top'', convertedOffset),
        (''top-left'', convertedOffset),
        (''top-right'', convertedOffset),
        (''bottom'', convertedOffset),
        (''bottom-left'', convertedOffset),
        (''bottom-right'', convertedOffset),
        (''left'', convertedOffset),
        (''right'', convertedOffset)])"
| "normalizeOffset (Some (OffsetMap m)) =
     [(''center'', Point_convert (entry_or_zero m ''center'')),
      (''top'', Point_convert (entry_or_zero m ''top'')),
      (''top-left'', Point_convert (entry_or_zero m ''top-left'')),
      (''top-right'', Point_convert (entry_or_zero m ''top-right'')),
      (''bottom'', Point_convert (entry_or_zero m ''bottom'')),
      (''bottom-left'', Point_convert (entry_or_zero m ''bottom-left'')),
      (''bottom-right'', Point_convert (entry_or_zero m ''bottom-right'')),
      (''left'', Point_convert (entry_or_zero m ''left'')),
      (''right'', Point_convert (entry_or_zero m ''right''))]"
  by pat_completeness auto
termination
  by (relation "measure (\<lambda>off. if falsy_offset off then 1 else 0)") auto

section \<open>Automatic anchor selection\<close>

text \<open>\<open>Array.prototype.join\<close> on an array of strings.\<close>

fun join :: "string \<Rightarrow> string list \<Rightarrow> string" where
  "join sep [] = []"
| "join sep [a] = a"
| "join sep (a # b # rest) = a @ sep @ join sep (b # rest)"

text \<open>
  The block of \<open>_update\<close> that runs when no anchor is given (lines 286 to 310):
  \<open>pos\<close> is the projected position, \<open>w\<close> and \<open>h\<close> the container's
  \<open>offsetWidth\<close> and \<open>offsetHeight\<close>, \<open>tw\<close> and \<open>th\<close> the transform's
  width and height, \<open>ob\<close> the table's entry \<open>offset.bottom\<close>.
\<close>

definition anchorComponents :: "Point \<Rightarrow> number \<Rightarrow> number \<Rightarrow> number \<Rightarrow> number \<Rightarrow> Point \<Rightarrow> string list" where
  "anchorComponents pos w h tw th ob =
     (let cs = (if js_lt (js_add (y pos) (y ob)) h then [''top'']
                else if js_gt (y pos) (js_sub th h) then [''bottom'']
                else [])
      in if js_lt (x pos) (js_half w) then cs @ [''left'']
         else if js_gt (x pos) (js_sub tw (js_half w)) then cs @ [''right'']
         else cs)"

definition autoAnchor :: "Point \<Rightarrow> number \<Rightarrow> number \<Rightarrow> number \<Rightarrow> number \<Rightarrow> Point \<Rightarrow> string" where
  "autoAnchor pos w h tw th ob =
     (let cs = anchorComponents pos w h tw th ob
      in if length cs = 0 then ''bottom'' else join ''-'' cs)"

section \<open>Geographic coordinates and the view\<close>

text \<open>
  A geographic coordinate is handled only by code that is not among the sources (the
  conversion, the wrapping and the projection), never by the popup's own arithmetic: its
  longitude and latitude are kept as the reals they denote.
\<close>

record LngLat =
  lng :: real
  lat :: real

text \<open>
  \<open>LngLatLike\<close>: a \<open>LngLat\<close>, an object \<open>{lng, lat}\<close> or an array
  \<open>[lng, lat]\<close>.
\<close>

datatype LngLatLike = LngLatObject LngLat | LngLatLiteral real real | LngLatArray real real

text \<open>
  Modelled from the spec: \<open>LngLat.convert\<close> of \<open>geo/lng_lat\<close>, which is not
  among the sources. The spec speaks of "setting geographic location" with "the same
  coordinate" read back, so the conversion keeps the longitude and the latitude of its
  input, whatever the shape it is given in.
\<close>

fun LngLat_convert :: "LngLatLike \<Rightarrow> LngLat" where
  "LngLat_convert (LngLatObject l) = l"
| "LngLat_convert (LngLatLiteral a b) = \<lparr>lng = a, lat = b\<rparr>"
| "LngLat_convert (LngLatArray a b) = \<lparr>lng = a, lat = b\<rparr>"

text \<open>
  The transform of the view: whether world copies are rendered, and the viewport's
  width and height. \<open>wrapTurns\<close> is the view's part in \<open>smartWrap\<close> below.
\<close>

record Transform =
  renderWorldCopies :: bool
  width :: number
  height :: number
  wrapTurns :: "LngLat \<Rightarrow> Point option \<Rightarrow> int"

text \<open>
  Modelled from the spec: \<open>smartWrap\<close> of \<open>util/smart_wrap\<close>, which is not among
  the sources. The spec calls it "longitude normalization when world-copy wrapping is
  enabled", and the comment of \<open>getLngLat\<close> says the longitude returned may differ
  from the one set by a multiple of 360 degrees: the result has the latitude of its
  argument and the longitude moved by a whole number of turns, which the view chooses
  from the coordinate and the prior position.
\<close>

definition smartWrap :: "LngLat \<Rightarrow> Point option \<Rightarrow> Transform \<Rightarrow> LngLat" where
  "smartWrap lngLat priorPos t =
     lngLat\<lparr>lng := lng lngLat + 360 * of_int (wrapTurns t lngLat priorPos)\<rparr>"

text \<open>
  The map, as the popup uses it: \<open>map.transform\<close> and \<open>map.project\<close>. Its
  container is the parent \<open>MapContainer\<close> below; the calls of \<open>map.on\<close> and
  \<open>map.off\<close> are recorded among the popup's effects.
\<close>

record Map =
  transform :: Transform
  project :: "LngLat \<Rightarrow> Point"

section \<open>The DOM nodes of a popup\<close>

text \<open>
  Exceptions: an outcome is a normal return with the new state, or a throw with the
  state at the moment of the throw.
\<close>

datatype error = TypeError | SyntaxError | InvalidCharacterError

datatype 'a outcome = Returned 'a | Thrown error 'a

fun state_of :: "'a outcome \<Rightarrow> 'a" where
  "state_of (Returned s) = s"
| "state_of (Thrown e s) = s"

text \<open>Nodes a caller hands to \<open>setDOMContent\<close>.\<close>

datatype Node = TextNode string | ElementNode string | DocumentFragment "Node list"

text \<open>
  The elements a popup creates. The tree is kept by parent pointers: the container
  hangs in the map's container, the tip and the content in the popup's container, the
  close button in the content. \<open>style_transform\<close> holds the two parts of the string
  \<open>DOM.setTransform\<close> receives: the anchor whose \<open>anchorTranslate\<close> entry comes
  first, and the point of the pixel translation. \<open>anchorClass\<close> holds the anchor and
  the prefix \<open>applyAnchorClass\<close> was last called with.
\<close>

datatype ParentRef = MapContainer | PopupContainer | PopupContent

record HTMLElement =
  tagName :: string
  classList :: "string list"
  parentNode :: "ParentRef option"
  childNodes :: "Node list"
  attributes :: "(string \<times> string) list"
  innerHTML :: string
  eventListeners :: "(string \<times> string) list"
  style_transform :: "(string \<times> Point) option"
  anchorClass :: "(string \<times> string) option"

text \<open>
  Modelled from the spec: \<open>DOM.create\<close>, \<open>DOM.remove\<close> and \<open>DOM.setTransform\<close>
  of \<open>util/dom\<close> and \<open>applyAnchorClass\<close> of \<open>ui/anchor\<close>, which are not among the
  sources ("DOM creation/removal utilities", "mutates container DOM transform/class
  attributes"). \<open>DOM.create\<close> makes an element of the tag with the class and appends
  it to the container when one is given; \<open>DOM.remove\<close> takes a node out of its parent,
  if it has one.
\<close>

definition DOM_create :: "string \<Rightarrow> string \<Rightarrow> ParentRef option \<Rightarrow> HTMLElement" where
  "DOM_create tag cls container =
     \<lparr>tagName = tag, classList = [cls], parentNode = container, childNodes = [],
      attributes = [], innerHTML = [], eventListeners = [], style_transform = None,
      anchorClass = None\<rparr>"

definition DOM_remove :: "HTMLElement \<Rightarrow> HTMLElement" where
  "DOM_remove node = (case parentNode node of None \<Rightarrow> node | Some q \<Rightarrow> node\<lparr>parentNode := None\<rparr>)"

definition DOM_setTransform :: "HTMLElement \<Rightarrow> string \<times> Point \<Rightarrow> HTMLElement" where
  "DOM_setTransform el v = el\<lparr>style_transform := Some v\<rparr>"

definition applyAnchorClass :: "HTMLElement \<Rightarrow> string \<Rightarrow> string \<Rightarrow> HTMLElement" where
  "applyAnchorClass el a prefix = el\<lparr>anchorClass := Some (a, prefix)\<rparr>"

text \<open>
  \<open>appendChild\<close> of a caller's node: a document fragment gives its children, any
  other node itself.
\<close>

definition appendChild :: "HTMLElement \<Rightarrow> Node \<Rightarrow> HTMLElement" where
  "appendChild el n =
     el\<lparr>childNodes := childNodes el @ (case n of DocumentFragment ns \<Rightarrow> ns | TextNode s \<Rightarrow> [n] | ElementNode s \<Rightarrow> [n])\<rparr>"

text \<open>\<open>String.prototype.split\<close> at a one-character separator.\<close>

fun String_split :: "char \<Rightarrow> string \<Rightarrow> string list" where
  "String_split sep [] = [[]]"
| "String_split sep (c # cs) =
     (if c = sep then [] # String_split sep cs
      else (case String_split sep cs of [] \<Rightarrow> [[c]] | w # ws \<Rightarrow> (c # w) # ws))"

text \<open>
  \<open>classList.add\<close>: an empty token throws a SyntaxError, a token with ASCII
  whitespace an InvalidCharacterError; a token already in the list is not added again.
\<close>

definition ascii_whitespace :: "char \<Rightarrow> bool" where
  "ascii_whitespace c = (c \<in> {CHR 0x09, CHR 0x0A, CHR 0x0C, CHR 0x0D, CHR '' ''})"

definition classList_add :: "string \<Rightarrow> HTMLElement \<Rightarrow> HTMLElement outcome" where
  "classList_add name el =
     (if name = [] then Thrown SyntaxError el
      else if list_ex ascii_whitespace name then Thrown InvalidCharacterError el
      else if name \<in> set (classList el) then Returned el
      else Returned (el\<lparr>classList := classList el @ [name]\<rparr>))"

text \<open>\<open>names.forEach(name => container.classList.add(name))\<close>.\<close>

fun addClasses :: "string list \<Rightarrow> HTMLElement \<Rightarrow> HTMLElement outcome" where
  "addClasses [] el = Returned el"
| "addClasses (name # names) el =
     (case classList_add name el of
        Thrown e el' \<Rightarrow> Thrown e el'
      | Returned el' \<Rightarrow> addClasses names el')"

section \<open>The popup\<close>

text \<open>
  The object handed to the constructor: each key is absent, or present with a value,
  which may be \<open>undefined\<close> (\<open>None\<close>).
\<close>

datatype 'a property = Absent | Present "'a option"

record PopupOptionsGiven =
  given_closeButton :: "bool property"
  given_closeOnClick :: "bool property"
  given_anchor :: "string property"
  given_offset :: "Offset property"
  given_className :: "string property"

text \<open>
  \<open>this.options\<close>, as the popup reads it: the value of each option, \<open>None\<close>
  for \<open>undefined\<close>. \<open>extend(Object.create(defaultOptions), options)\<close> copies every
  key of the caller's object, whatever its value, over an object that inherits the
  defaults: an option is read from the caller's object when the key is there, and from
  the defaults otherwise.
\<close>

record PopupOptions =
  closeButton :: "bool option"
  closeOnClick :: "bool option"
  anchor :: "string option"
  offset :: "Offset option"
  className :: "string option"

definition defaultOptions :: PopupOptions where
  "defaultOptions =
     \<lparr>closeButton = Some True, closeOnClick = Some True, anchor = None, offset = None,
      className = Some []\<rparr>"

fun own_or_inherited :: "'a property \<Rightarrow> 'a option \<Rightarrow> 'a option" where
  "own_or_inherited Absent dflt = dflt"
| "own_or_inherited (Present v) dflt = v"

definition extend_options :: "PopupOptions \<Rightarrow> PopupOptionsGiven \<Rightarrow> PopupOptions" where
  "extend_options dflt opts =
     \<lparr>closeButton = own_or_inherited (given_closeButton opts) (closeButton dflt),
      closeOnClick = own_or_inherited (given_closeOnClick opts) (closeOnClick dflt),
      anchor = own_or_inherited (given_anchor opts) (anchor dflt),
      offset = own_or_inherited (given_offset opts) (offset dflt),
      className = own_or_inherited (given_className opts) (className dflt)\<rparr>"

text \<open>Truthiness of an optional boolean and of an optional string.\<close>

fun truthy_bool :: "bool option \<Rightarrow> bool" where
  "truthy_bool None = False"
| "truthy_bool (Some b) = b"

fun truthy_string :: "string option \<Rightarrow> bool" where
  "truthy_string None = False"
| "truthy_string (Some s) = (s \<noteq> [])"

text \<open>
  Modelled from the spec: \<open>Evented\<close> of \<open>util/evented\<close>, which is not among the
  sources. The popup "subscribes to move and click notifications and unsubscribes on
  detach" and "emits two lifecycle notifications": its calls of
  \<open>map.on(type, handler)\<close> and \<open>map.off(type, handler)\<close> on the map it holds and
  of \<open>this.fire(new Event(type))\<close> are recorded in order.
\<close>

datatype Effect = MapOn string string | MapOff string string | Fire string

record Popup =
  Popup_map :: "Map option"
  options :: PopupOptions
  Popup_content :: "HTMLElement option"
  Popup_container :: "HTMLElement option"
  Popup_closeButton :: "HTMLElement option"
  Popup_tip :: "HTMLElement option"
  Popup_lngLat :: "LngLat option"
  Popup_pos :: "Point option"
  effects :: "Effect list"

definition Popup_new :: "PopupOptionsGiven \<Rightarrow> Popup" where
  "Popup_new opts =
     \<lparr>Popup_map = None, options = extend_options defaultOptions opts, Popup_content = None,
      Popup_container = None, Popup_closeButton = None, Popup_tip = None,
      Popup_lngLat = None, Popup_pos = None, effects = []\<rparr>"

definition fire :: "string \<Rightarrow> Popup \<Rightarrow> Popup" where
  "fire type p = p\<lparr>effects := effects p @ [Fire type]\<rparr>"

definition map_on :: "string \<Rightarrow> string \<Rightarrow> Popup \<Rightarrow> Popup" where
  "map_on type handler p = p\<lparr>effects := effects p @ [MapOn type handler]\<rparr>"

definition map_off :: "string \<Rightarrow> string \<Rightarrow> Popup \<Rightarrow> Popup" where
  "map_off type handler p = p\<lparr>effects := effects p @ [MapOff type handler]\<rparr>"

text \<open>
  The layout the browser reports for the popup's container when \<open>_update\<close> reads
  \<open>offsetWidth\<close> and \<open>offsetHeight\<close>.
\<close>

record Layout =
  offsetWidth :: number
  offsetHeight :: number

text \<open>
  \<open>_update\<close>, lines 266 to 275: the container is created in the map's container
  with its tip, the content is appended to it, and the classes of
  \<open>options.className\<close> are added when that string is truthy.
\<close>

definition createContainer :: "HTMLElement \<Rightarrow> Popup \<Rightarrow> Popup outcome" where
  "createContainer content p =
     (let container = DOM_create ''div'' ''mapboxgl-popup'' (Some MapContainer);
          p1 = p\<lparr>Popup_container := Some container\<rparr>;
          p2 = p1\<lparr>Popup_tip := Some (DOM_create ''div'' ''mapboxgl-popup-tip'' (Some PopupContainer))\<rparr>;
          p3 = p2\<lparr>Popup_content := Some (content\<lparr>parentNode := Some PopupContainer\<rparr>)\<rparr>
      in case className (options p3) of
           None \<Rightarrow> Returned p3
         | Some names \<Rightarrow>
            if names = [] then Returned p3
            else
              (case addClasses (String_split CHR '' '' names) container of
                 Thrown e el \<Rightarrow> Thrown e (p3\<lparr>Popup_container := Some el\<rparr>)
               | Returned el \<Rightarrow> Returned (p3\<lparr>Popup_container := Some el\<rparr>)))"

text \<open>
  \<open>_update\<close>, lines 277 to 315: the coordinate is wrapped when world copies are
  rendered, projected, the anchor is taken from the options or chosen, and the
  container receives its transform and its anchor class. A read of a property of
  \<open>undefined\<close> throws a TypeError: the table's entry for the anchor in
  \<open>pos.add(offset[anchor])\<close>, and the container. (The option's type is
  \<open>Anchor\<close>, one of the nine names, all keys of the table.)
\<close>

definition positionContainer :: "Layout \<Rightarrow> Map \<Rightarrow> LngLat \<Rightarrow> Popup \<Rightarrow> Popup outcome" where
  "positionContainer lay m lngLat p =
     (let wrapped = (if renderWorldCopies (transform m)
                     then smartWrap lngLat (Popup_pos p) (transform m) else lngLat);
          pos = project m wrapped;
          p1 = p\<lparr>Popup_lngLat := Some wrapped, Popup_pos := Some pos\<rparr>;
          table = normalizeOffset (offset (options p1))
      in case Popup_container p1 of
           None \<Rightarrow> Thrown TypeError p1
         | Some container \<Rightarrow>
            (case (if truthy_string (anchor (options p1)) then anchor (options p1)
                   else map_option
                          (autoAnchor pos (offsetWidth lay) (offsetHeight lay)
                             (width (transform m)) (height (transform m)))
                          (map_of table ''bottom'')) of
               None \<Rightarrow> Thrown TypeError p1
             | Some a \<Rightarrow>
                (case map_of table a of
                   None \<Rightarrow> Thrown TypeError p1
                 | Some off \<Rightarrow>
                    (let offsetedPos = Point_round (Point_add pos off)
                     in Returned (p1\<lparr>Popup_container :=
                          Some (applyAnchorClass (DOM_setTransform container (a, offsetedPos))
                                  a ''popup'')\<rparr>)))))"

definition Popup_update :: "Layout \<Rightarrow> Popup \<Rightarrow> Popup outcome" where
  "Popup_update lay p =
     (case Popup_map p of
        None \<Rightarrow> Returned p
      | Some m \<Rightarrow>
         (case Popup_lngLat p of
            None \<Rightarrow> Returned p
          | Some lngLat \<Rightarrow>
             (case Popup_content p of
                None \<Rightarrow> Returned p
              | Some content \<Rightarrow>
                 (case (case Popup_container p of
                          None \<Rightarrow> createContainer content p
                        | Some container \<Rightarrow> Returned p) of
                    Thrown e p1 \<Rightarrow> Thrown e p1
                  | Returned p1 \<Rightarrow> positionContainer lay m lngLat p1))))"

definition addTo :: "Layout \<Rightarrow> Map \<Rightarrow> Popup \<Rightarrow> Popup outcome" where
  "addTo lay m p =
     (let p1 = p\<lparr>Popup_map := Some m\<rparr>;
          p2 = map_on ''move'' ''_update'' p1;
          p3 = (if truthy_bool (closeOnClick (options p2))
                then map_on ''click'' ''_onClickClose'' p2 else p2)
      in case Popup_update lay p3 of
           Thrown e p4 \<Rightarrow> Thrown e p4
         | Returned p4 \<Rightarrow> Returned (fire ''open'' p4))"

definition isOpen :: "Popup \<Rightarrow> bool" where
  "isOpen p = (case Popup_map p of None \<Rightarrow> False | Some m \<Rightarrow> True)"

definition Popup_remove :: "Popup \<Rightarrow> Popup" where
  "Popup_remove p =
     (let p1 = (case Popup_content p of
                  None \<Rightarrow> p
                | Some content \<Rightarrow> p\<lparr>Popup_content := Some (DOM_remove content)\<rparr>);
          p2 = (case Popup_container p1 of
                  None \<Rightarrow> p1
                | Some container \<Rightarrow> p1\<lparr>Popup_container := None\<rparr>);
          p3 = (case Popup_map p2 of
                  None \<Rightarrow> p2
                | Some m \<Rightarrow>
                   (map_off ''click'' ''_onClickClose'' (map_off ''move'' ''_update'' p2))
                     \<lparr>Popup_map := None\<rparr>)
      in fire ''close'' p3)"

definition getLngLat :: "Popup \<Rightarrow> LngLat option" where
  "getLngLat p = Popup_lngLat p"

definition setLngLat :: "Layout \<Rightarrow> LngLatLike \<Rightarrow> Popup \<Rightarrow> Popup outcome" where
  "setLngLat lay lnglat p =
     Popup_update lay (p\<lparr>Popup_lngLat := Some (LngLat_convert lnglat), Popup_pos := None\<rparr>)"

definition Popup_createContent :: "Popup \<Rightarrow> Popup" where
  "Popup_createContent p =
     (let p1 = (case Popup_content p of
                  None \<Rightarrow> p
                | Some content \<Rightarrow> p\<lparr>Popup_content := Some (DOM_remove content)\<rparr>);
          p2 = p1\<lparr>Popup_content :=
                 Some (DOM_create ''div'' ''mapboxgl-popup-content''
                         (case Popup_container p1 of
                            None \<Rightarrow> None
                          | Some container \<Rightarrow> Some PopupContainer))\<rparr>
      in if truthy_bool (closeButton (options p2)) then
           p2\<lparr>Popup_closeButton :=
                Some ((DOM_create ''button'' ''mapboxgl-popup-close-button'' (Some PopupContent))
                        \<lparr>attributes := [(''type'', ''button''), (''aria-label'', ''Close popup'')],
                         innerHTML := ''&#215;'',
                         eventListeners := [(''click'', ''_onClickClose'')]\<rparr>)\<rparr>
         else p2)"

definition setDOMContent :: "Layout \<Rightarrow> Node \<Rightarrow> Popup \<Rightarrow> Popup outcome" where
  "setDOMContent lay htmlNode p =
     (let p1 = Popup_createContent p
      in case Popup_content p1 of
           None \<Rightarrow> Thrown TypeError p1
         | Some content \<Rightarrow>
            Popup_update lay (p1\<lparr>Popup_content := Some (appendChild content htmlNode)\<rparr>))"

definition setText :: "Layout \<Rightarrow> string \<Rightarrow> Popup \<Rightarrow> Popup outcome" where
  "setText lay text p = setDOMContent lay (TextNode text) p"

text \<open>
  \<open>setHTML\<close>: the browser parses the markup into the children of a temporary
  element (\<open>parse\<close>), and the loop moves them one by one, first child first, into
  a document fragment.
\<close>

fun moveChildren :: "Node list \<Rightarrow> Node list \<Rightarrow> Node list" where
  "moveChildren [] frag = frag"
| "moveChildren (child # rest) frag = moveChildren rest (frag @ [child])"

definition setHTML :: "(string \<Rightarrow> Node list) \<Rightarrow> Layout \<Rightarrow> string \<Rightarrow> Popup \<Rightarrow> Popup outcome" where
  "setHTML parse lay html p =
     setDOMContent lay (DocumentFragment (moveChildren (parse html) [])) p"

definition Popup_onClickClose :: "Popup \<Rightarrow> Popup" where
  "Popup_onClickClose p = Popup_remove p"

section \<open>Vocabulary of the properties\<close>

fun returned :: "'a outcome \<Rightarrow> bool" where
  "returned (Returned s) = True"
| "returned (Thrown e s) = False"




text \<open>A number that is zero or more, or the positive infinity.\<close>

fun nonnegative :: "number \<Rightarrow> bool" where
  "nonnegative NaN = False"
| "nonnegative PInf = True"
| "nonnegative NInf = False"
| "nonnegative (Fin a) = (0 \<le> a)"

text \<open>The spec's corner offset of a radius, \<open>round(sqrt(0.5 * r^2))\<close>.\<close>

definition spec_cornerOffset :: "number \<Rightarrow> number" where
  "spec_cornerOffset r = Math_round (Math_sqrt (js_mul (Fin 0.5) (Math_pow_2 r)))"

text \<open>The popup is attached to a view that renders world copies.\<close>

definition wrapsWorldCopies :: "Popup \<Rightarrow> bool" where
  "wrapsWorldCopies p =
     (case Popup_map p of None \<Rightarrow> False | Some m \<Rightarrow> renderWorldCopies (transform m))"

text \<open>
  Automatic anchor selection in the spec's words: the vertical component, the
  horizontal component (the empty string when there is none), and their combination,
  "if both components present, join as vertical-horizontal; if only one, use it; if
  neither, default anchor is bottom".
\<close>

definition spec_verticalComponent :: "Point \<Rightarrow> number \<Rightarrow> number \<Rightarrow> Point \<Rightarrow> string" where
  "spec_verticalComponent pos h th ob =
     (if js_lt (js_add (y pos) (y ob)) h then ''top''
      else if js_gt (y pos) (js_sub th h) then ''bottom''
      else [])"

definition spec_horizontalComponent :: "Point \<Rightarrow> number \<Rightarrow> number \<Rightarrow> string" where
  "spec_horizontalComponent pos w tw =
     (if js_lt (x pos) (js_half w) then ''left''
      else if js_gt (x pos) (js_sub tw (js_half w)) then ''right''
      else [])"

definition spec_combine :: "string \<Rightarrow> string \<Rightarrow> string" where
  "spec_combine v hz =
     (if v \<noteq> [] \<and> hz \<noteq> [] then v @ ''-'' @ hz
      else if v \<noteq> [] then v
      else if hz \<noteq> [] then hz
      else ''bottom'')"

section \<open>Sample inputs\<close>

text \<open>
  \<open>new Popup({})\<close>; a view of 200 by 200 pixels that projects a coordinate to the
  pixel of the same numbers and renders no world copies; a view that renders world
  copies and wraps one turn to the west; a container laid out at 20 by 20 pixels.
\<close>

definition emptyOptions :: PopupOptionsGiven where
  "emptyOptions =
     \<lparr>given_closeButton = Absent, given_closeOnClick = Absent, given_anchor = Absent,
      given_offset = Absent, given_className = Absent\<rparr>"

definition sampleMap :: Map where
  "sampleMap =
     \<lparr>transform = \<lparr>renderWorldCopies = False, width = Fin 200, height = Fin 200,
                    wrapTurns = (\<lambda>l q. 0)\<rparr>,
      project = (\<lambda>l. Point (Fin (lng l)) (Fin (lat l)))\<rparr>"

definition wrappingMap :: Map where
  "wrappingMap =
     \<lparr>transform = \<lparr>renderWorldCopies = True, width = Fin 200, height = Fin 200,
                    wrapTurns = (\<lambda>l q. - 1)\<rparr>,
      project = (\<lambda>l. Point (Fin (lng l)) (Fin (lat l)))\<rparr>"

definition sampleLayout :: Layout where
  "sampleLayout = \<lparr>offsetWidth = Fin 20, offsetHeight = Fin 20\<rparr>"

text \<open>
  \<open>new Popup({}).setLngLat([10, 10]).setText('hi')\<close>, then the same with
  \<open>_map\<close> assigned (the state in which \<open>addTo\<close> calls \<open>_update\<close>), and the
  popup after \<open>addTo(sampleMap)\<close>.
\<close>

definition samplePopup :: Popup where
  "samplePopup =
     state_of (setText sampleLayout ''hi''
       (state_of (setLngLat sampleLayout (LngLatArray 10 10) (Popup_new emptyOptions))))"

definition sampleAttaching :: Popup where
  "sampleAttaching = samplePopup\<lparr>Popup_map := Some sampleMap\<rparr>"

definition sampleOpen :: Popup where
  "sampleOpen = state_of (addTo sampleLayout sampleMap samplePopup)"

text \<open>A popup with content, open on the view that wraps.\<close>

definition sampleWrapped :: Popup where
  "sampleWrapped =
     state_of (addTo sampleLayout wrappingMap
       (state_of (setText sampleLayout ''hi'' (Popup_new emptyOptions))))"

text \<open>
  \<open>new Popup({offset: 10}).setLngLat({lng: 100.5, lat: 40.25}).setText('hi')\<close> with
  \<open>_map\<close> assigned: the state in which \<open>addTo(sampleMap)\<close> calls \<open>_update\<close>.
\<close>

definition sampleOffsetPopup :: Popup where
  "sampleOffsetPopup =
     (state_of (setText sampleLayout ''hi''
        (state_of (setLngLat sampleLayout (LngLatLiteral 100.5 40.25)
           (Popup_new (emptyOptions\<lparr>given_offset := Present (Some (OffsetNumber (Fin 10)))\<rparr>))))))
     \<lparr>Popup_map := Some sampleMap\<rparr>"

text \<open>
  \<open>new Popup({}).setLngLat([100, 50]).setText('hi')\<close> with \<open>_map\<close> assigned:
  a popup in the middle of the view.
\<close>

definition sampleCentrePopup :: Popup where
  "sampleCentrePopup =
     (state_of (setText sampleLayout ''hi''
        (state_of (setLngLat sampleLayout (LngLatArray 100 50) (Popup_new emptyOptions)))))
     \<lparr>Popup_map := Some sampleMap\<rparr>"

section \<open>Lemmas on rounding\<close>

lemma roundHalfEven_of_int [simp]: "roundHalfEven (of_int n) = n"
  by (simp add: roundHalfEven_def)

lemma roundHalfEven_nonneg: "0 \<le> t \<Longrightarrow> 0 \<le> roundHalfEven t"
  by (auto simp add: roundHalfEven_def Let_def)

lemma roundHalfEven_bounds: "\<bar>of_int (roundHalfEven t) - t\<bar> \<le> 1 / 2"
  unfolding roundHalfEven_def Let_def
  by (auto simp add: abs_le_iff)

lemma quantumExponent_eq:
  assumes "2 powi k \<le> \<bar>v\<bar>" and "\<bar>v\<bar> < 2 powi (k + 1)"
  shows "quantumExponent v = max (k - 52) (- 1074)"
proof -
  have pos: "0 < \<bar>v\<bar>" using assms(1) by (smt (verit) zero_less_power_int)
  have a: "(2::real) powr of_int k = 2 powi k"
    by (simp add: powr_real_of_int')
  have b: "(2::real) powr (of_int k + 1) = 2 powi (k + 1)"
    using powr_real_of_int' [of "2::real" "k + 1"] by simp
  have "\<lfloor>log 2 \<bar>v\<bar>\<rfloor> = k"
    using assms pos by (simp add: floor_log_eq_powr_iff a b)
  then show ?thesis by (simp add: quantumExponent_def)
qed

lemma rnd_bracket:
  assumes "2 powi k \<le> \<bar>v\<bar>" and "\<bar>v\<bar> < 2 powi (k + 1)"
  shows "rnd v =
     (let q = 2 powi (max (k - 52) (- 1074));
          r = of_int (roundHalfEven (v / q)) * q
      in if \<bar>r\<bar> \<ge> 2 ^ 1024 then (if v > 0 then PInf else NInf) else Fin r)"
proof -
  have "v \<noteq> 0" using assms(1) by (smt (verit) zero_less_power_int)
  then show ?thesis
    by (simp add: rnd_def quantumExponent_eq [OF assms])
qed

lemma rnd_nonneg:
  assumes "0 \<le> v"
  shows "rnd v = PInf \<or> (\<exists>w\<ge>0. rnd v = Fin w)"
proof (cases "v = 0")
  case True
  then show ?thesis by (simp add: rnd_def)
next
  case False
  with assms have "0 < v" by simp
  moreover have "0 < (2::real) powi quantumExponent v" by simp
  ultimately have "0 \<le> roundHalfEven (v / 2 powi quantumExponent v)"
    by (intro roundHalfEven_nonneg) simp
  then have "0 \<le> of_int (roundHalfEven (v / 2 powi quantumExponent v)) * (2::real) powi quantumExponent v"
    by simp
  with \<open>0 < v\<close> show ?thesis
    by (auto simp add: rnd_def Let_def)
qed

lemma rnd_dyadic:
  assumes m: "\<bar>m\<bar> < 2 ^ 53" and lo: "- 1074 \<le> e" and hi: "e \<le> 971"
  shows "rnd (of_int m * 2 powi e) = Fin (of_int m * 2 powi e)"
proof (cases "m = 0")
  case True
  then show ?thesis by (simp add: rnd_def)
next
  case False
  define v :: real where "v = of_int m * 2 powi e"
  have v0: "v \<noteq> 0" using False by (simp add: v_def)
  have absv: "\<bar>v\<bar> = of_int \<bar>m\<bar> * 2 powi e"
    by (simp add: v_def abs_mult)
  have "of_int \<bar>m\<bar> < (2::real) ^ 53"
    using m by (metis of_int_less_iff of_int_numeral of_int_power)
  then have "\<bar>v\<bar> < 2 ^ 53 * 2 powi e"
    unfolding absv by (simp add: mult_strict_right_mono)
  also have "(2::real) ^ 53 * 2 powi e = 2 powi (53 + e)"
    by (simp add: power_int_add)
  finally have lt: "\<bar>v\<bar> < 2 powi (53 + e)" .
  have "log 2 \<bar>v\<bar> < log 2 (2 powi (53 + e))"
    using lt v0 by simp
  also have "log 2 ((2::real) powi (53 + e)) = of_int (53 + e)"
  proof -
    have "(2::real) powr of_int (53 + e) = 2 powi (53 + e)"
      by (rule powr_real_of_int') simp_all
    then have "log 2 ((2::real) powi (53 + e)) = log 2 (2 powr of_int (53 + e))"
      by simp
    also have "\<dots> = of_int (53 + e)"
      by (rule log_powr_cancel) simp_all
    finally show ?thesis .
  qed
  finally have "\<lfloor>log 2 \<bar>v\<bar>\<rfloor> < 53 + e"
    by (simp add: floor_less_iff)
  then have qe: "quantumExponent v \<le> e"
    using lo by (simp add: quantumExponent_def)
  define d where "d = nat (e - quantumExponent v)"
  have e_eq: "e = quantumExponent v + int d" using qe by (simp add: d_def)
  define q :: real where "q = 2 powi quantumExponent v"
  have q0: "q \<noteq> 0" by (simp add: q_def)
  have "(2::real) powi e = q * 2 ^ d"
    unfolding q_def by (subst e_eq) (simp add: power_int_add)
  then have vq: "v = of_int (m * 2 ^ d) * q"
    by (simp add: v_def)
  then have quot: "v / q = of_int (m * 2 ^ d)"
    using q0 by simp
  have r: "of_int (roundHalfEven (v / 2 powi quantumExponent v)) * 2 powi quantumExponent v = v"
    unfolding q_def [symmetric] quot roundHalfEven_of_int using vq by simp
  have "\<bar>v\<bar> < 2 powi (53 + e)" by (rule lt)
  also have "(2::real) powi (53 + e) \<le> 2 powi 1024"
    using hi by (intro power_int_increasing) simp_all
  finally have "\<bar>v\<bar> < 2 ^ 1024" by simp
  with v0 r show ?thesis
    by (simp add: rnd_def Let_def v_def [symmetric])
qed

lemma rnd_of_int: "\<bar>m\<bar> < 2 ^ 53 \<Longrightarrow> rnd (of_int m) = Fin (of_int m)"
  using rnd_dyadic [of m 0] by simp

lemma rnd_numeral [simp]: "numeral n < (2::int) ^ 53 \<Longrightarrow> rnd (numeral n) = Fin (numeral n)"
  using rnd_of_int [of "numeral n"] by simp

lemma rnd_neg_numeral [simp]: "numeral n < (2::int) ^ 53 \<Longrightarrow> rnd (- numeral n) = Fin (- numeral n)"
  using rnd_of_int [of "- numeral n"] by simp

lemma rnd_0 [simp]: "rnd 0 = Fin 0" by (simp add: rnd_def)
lemma rnd_1 [simp]: "rnd 1 = Fin 1" using rnd_of_int [of 1] by simp

lemma rnd_quarters: "\<bar>m\<bar> < 2 ^ 53 \<Longrightarrow> rnd (of_int m / 4) = Fin (of_int m / 4)"
  using rnd_dyadic [of m "- 2"] by (simp add: power_int_minus field_simps)


lemma rnd_halves: "\<bar>m\<bar> < 2 ^ 53 \<Longrightarrow> rnd (of_int m / 2) = Fin (of_int m / 2)"
  using rnd_dyadic [of m "- 1"] by (simp add: field_simps)

lemma nonnegative_rnd: "0 \<le> v \<Longrightarrow> nonnegative (rnd v)"
  using rnd_nonneg [of v] by auto

lemma nonnegative_Math_round: "nonnegative n \<Longrightarrow> nonnegative (Math_round n)"
  by (cases n) simp_all

lemma nonnegative_Math_sqrt: "nonnegative n \<Longrightarrow> nonnegative (Math_sqrt n)"
  by (cases n) (simp_all add: nonnegative_rnd)

lemma nonnegative_half: "nonnegative n \<Longrightarrow> nonnegative (js_mul (Fin 0.5) n)"
  by (cases n) (simp_all add: nonnegative_rnd)

lemma nonnegative_square: "n \<noteq> NaN \<Longrightarrow> nonnegative (Math_pow_2 n)"
  by (cases n) (simp_all add: Math_pow_2_def nonnegative_rnd)

lemma Math_sqrt_range: "Math_sqrt n = NaN \<or> nonnegative (Math_sqrt n)"
  by (cases n) (simp_all add: nonnegative_rnd)

lemma Math_abs_nonnegative: "nonnegative n \<Longrightarrow> Math_abs n = n"
  by (cases n) simp_all

lemma Math_abs_neg [simp]: "Math_abs (js_neg n) = Math_abs n"
  by (cases n) simp_all

lemma js_neg_neg [simp]: "js_neg (js_neg n) = n"
  by (cases n) simp_all

lemma falsy_number_neg [simp]: "falsy_number (js_neg n) = falsy_number n"
  by (cases n) simp_all

lemma Math_pow_2_neg [simp]: "Math_pow_2 (js_neg n) = Math_pow_2 n"
  by (cases n) (simp_all add: Math_pow_2_def)

lemma powi_2_succ: "(2::real) powi (k + 1) = 2 * 2 powi k"
  using power_int_add [of "2::real" k 1] by simp

lemma roundHalfEven_unique:
  assumes "of_int n - 1 / 2 < t" and "t < of_int n + 1 / 2"
  shows "roundHalfEven t = n"
proof -
  have "\<lfloor>t\<rfloor> = n \<or> \<lfloor>t\<rfloor> = n - 1" using assms by linarith
  then show ?thesis
  proof
    assume "\<lfloor>t\<rfloor> = n"
    with assms show ?thesis by (simp add: roundHalfEven_def Let_def)
  next
    assume "\<lfloor>t\<rfloor> = n - 1"
    with assms show ?thesis by (simp add: roundHalfEven_def Let_def)
  qed
qed

lemma rnd_normal:
  assumes lo: "2 powi k \<le> \<bar>v\<bar>" and hi: "\<bar>v\<bar> < 2 powi (k + 1)"
    and k1: "- 1022 \<le> k" and k2: "k \<le> 1022"
  shows "rnd v = Fin (of_int (roundHalfEven (v / 2 powi (k - 52))) * 2 powi (k - 52)) \<and>
         \<bar>of_int (roundHalfEven (v / 2 powi (k - 52))) * 2 powi (k - 52) - v\<bar> \<le> 2 powi (k - 53)"
proof -
  define q :: real where "q = 2 powi (k - 52)"
  define n where "n = roundHalfEven (v / q)"
  have q0: "0 < q" by (simp add: q_def)
  have mx: "max (k - 52) (- 1074) = k - 52" using k1 by simp
  have half: "q / 2 = 2 powi (k - 53)"
    using powi_2_succ [of "k - 53"] by (simp add: q_def)
  have "\<bar>of_int n - v / q\<bar> \<le> 1 / 2"
    unfolding n_def by (rule roundHalfEven_bounds)
  then have "\<bar>of_int n - v / q\<bar> * q \<le> 1 / 2 * q"
    using q0 by (intro mult_right_mono) simp_all
  moreover have "\<bar>of_int n - v / q\<bar> * q = \<bar>of_int n * q - v\<bar>"
  proof -
    have "\<bar>of_int n - v / q\<bar> * q = \<bar>(of_int n - v / q) * q\<bar>"
      using q0 by (simp add: abs_mult)
    also have "(of_int n - v / q) * q = of_int n * q - v"
      using q0 by (simp add: left_diff_distrib)
    finally show ?thesis .
  qed
  ultimately have close: "\<bar>of_int n * q - v\<bar> \<le> 2 powi (k - 53)"
    using half by simp
  have "(2::real) powi (k - 53) \<le> 2 powi (k + 1)"
    by (intro power_int_increasing) simp_all
  with close hi have "\<bar>of_int n * q\<bar> < 2 powi (k + 1) + 2 powi (k + 1)" by linarith
  also have "\<dots> = 2 powi (k + 2)"
    using powi_2_succ [of "k + 1"] by (simp add: add.commute)
  also have "\<dots> \<le> 2 powi 1024"
    using k2 by (intro power_int_increasing) simp_all
  finally have small: "\<bar>of_int n * q\<bar> < 2 ^ 1024" by simp
  have "rnd v = Fin (of_int n * q)"
    using rnd_bracket [OF lo hi] small
    by (simp add: mx Let_def q_def [symmetric] n_def [symmetric])
  with close show ?thesis unfolding n_def q_def by blast
qed

lemma rnd_close:
  assumes "2 powi k \<le> \<bar>v\<bar>" and "\<bar>v\<bar> < 2 powi (k + 1)"
    and "- 1022 \<le> k" and "k \<le> 1022"
  shows "\<exists>w. rnd v = Fin w \<and> \<bar>w - v\<bar> \<le> 2 powi (k - 53)"
  using rnd_normal [OF assms] by blast

lemma rnd_to:
  assumes "2 powi k \<le> \<bar>v\<bar>" and "\<bar>v\<bar> < 2 powi (k + 1)"
    and "- 1022 \<le> k" and "k \<le> 1022"
    and "of_int n - 1 / 2 < v / 2 powi (k - 52)" and "v / 2 powi (k - 52) < of_int n + 1 / 2"
  shows "rnd v = Fin (of_int n * 2 powi (k - 52))"
  using rnd_normal [OF assms(1-4)] roundHalfEven_unique [OF assms(5,6)] by simp


lemma corner_of_10:
  "Math_round (Math_sqrt (js_mul (Fin 0.5) (Math_pow_2 (Fin 10)))) = Fin 7"
proof -
  have a: "js_mul (Fin 0.5) (Math_pow_2 (Fin 10)) = Fin 50"
    by (simp add: Math_pow_2_def)
  have s1: "7 \<le> sqrt 50" by (rule real_le_rsqrt) simp
  have s2: "sqrt 50 \<le> 7.1" by (rule real_le_lsqrt) (simp_all add: power2_eq_square)
  have "2 powi 2 \<le> \<bar>sqrt 50\<bar>" and "\<bar>sqrt 50\<bar> < 2 powi (2 + 1)"
    using s1 s2 by simp_all
  from rnd_close [OF this] obtain w where w: "rnd (sqrt 50) = Fin w"
    and c: "\<bar>w - sqrt 50\<bar> \<le> 2 powi (2 - 53)" by auto
  have "(2::real) powi (2 - 53) \<le> 1 / 10"
    by (simp add: power_int_minus field_simps)
  with c s1 s2 have "6.9 \<le> w" and "w \<le> 7.2" by linarith+
  then have "\<lfloor>w + 1 / 2\<rfloor> = 7" by linarith
  with a w show ?thesis by simp
qed

section \<open>The arithmetic where rounding shows\<close>

text \<open>
  Four computations on which double arithmetic and exact arithmetic part ways; the
  operations above give what the program gives.
\<close>

text \<open>0.49999999999999994 + 1 is 1.5, and rounds to 2.\<close>

lemma sum_below_half_plus_one:
  "js_add (Fin (9007199254740991 / 2 ^ 54)) (Fin 1) = Fin (3 / 2)"
proof -
  have "rnd (9007199254740991 / 2 ^ 54 + 1) = Fin (of_int 6755399441055744 * 2 powi (0 - 52))"
    by (rule rnd_to) (simp_all add: power_int_minus)
  then show ?thesis by (simp add: power_int_minus)
qed

lemma pixel_of_sum_below_half_plus_one:
  "Point_round (Point_add (Point (Fin (9007199254740991 / 2 ^ 54)) (Fin 0)) (Point (Fin 1) (Fin 0))) =
     Point (Fin 2) (Fin 0)"
proof -
  have "Math_round (Fin (3 / 2)) = Fin 2" by simp
  then show ?thesis
    unfolding Point_round_def Point_add_def Point.sel sum_below_half_plus_one by simp
qed

text \<open>2^53 + 1 is a tie and rounds to the even 2^53.\<close>

lemma sum_at_2_53:
  "js_add (Fin 9007199254740992) (Fin 1) = Fin 9007199254740992"
proof -
  define v :: real where "v = 9007199254740992 + 1"
  have b: "2 powi 53 \<le> \<bar>v\<bar>" "\<bar>v\<bar> < 2 powi (53 + 1)"
    by (simp_all add: v_def)
  have q: "v / 2 powi (max (53 - 52) (- 1074)) = 4503599627370496 + 1 / 2"
    by (simp add: v_def)
  have "roundHalfEven (4503599627370496 + 1 / 2) = 4503599627370496"
    by (simp add: roundHalfEven_def Let_def)
  with rnd_bracket [OF b] q have "rnd v = Fin 9007199254740992"
    by (simp add: Let_def)
  then show ?thesis by (simp add: v_def)
qed

text \<open>0.49999999999999994 + 19.5 is 20, which is not below a height of 20.\<close>

lemma sum_below_half_plus_19_5:
  "js_add (Fin (9007199254740991 / 2 ^ 54)) (Fin 19.5) = Fin 20"
proof -
  have "rnd (9007199254740991 / 2 ^ 54 + 19.5) = Fin (of_int 5629499534213120 * 2 powi (4 - 52))"
    by (rule rnd_to) (simp_all add: power_int_minus)
  then show ?thesis by (simp add: power_int_minus)
qed

lemma anchor_at_rounded_sum:
  "autoAnchor (Point (Fin 100) (Fin (9007199254740991 / 2 ^ 54))) (Fin 20) (Fin 20) (Fin 200)
     (Fin 200) (Point (Fin 0) (Fin 19.5)) = ''bottom''"
proof -
  have v: "js_lt (js_add (Fin (9007199254740991 / 2 ^ 54)) (Fin 19.5)) (Fin 20) = False"
    by (simp only: sum_below_half_plus_19_5) simp
  show ?thesis
    unfolding autoAnchor_def anchorComponents_def Point.sel v
    by (simp add: js_gt_def js_sub_def)
qed

text \<open>
  The radius 3.5355339059327373: its square is 12.499999999999998, half of it
  6.249999999999999, the square root of that 2.5, and the corner offset 3.
\<close>

lemma corner_of_3_5355339059327373:
  "Math_round (Math_sqrt (js_mul (Fin 0.5) (Math_pow_2 (Fin (7961314590657215 / 2 ^ 51))))) = Fin 3"
proof -
  have sq: "rnd (7961314590657215 / 2 ^ 51 * (7961314590657215 / 2 ^ 51)) =
      Fin (of_int 7036874417766399 * 2 powi (3 - 52))"
    by (rule rnd_to) (simp_all add: power_int_minus)
  have hf: "rnd (5 / 10 * (7036874417766399 / 2 ^ 49)) = Fin (7036874417766399 / 2 ^ 50)"
    using rnd_dyadic [of 7036874417766399 "- 50"] by (simp add: power_int_minus)
  have s1: "2 \<le> sqrt (7036874417766399 / 2 ^ 50)"
    by (rule real_le_rsqrt) simp
  have s2: "sqrt (7036874417766399 / 2 ^ 50) < 4"
    by (rule real_less_lsqrt) simp_all
  have s3: "5629499534213120 - 1 / 2 < sqrt (7036874417766399 / 2 ^ 50) * 2 ^ 51"
  proof -
    have "(5629499534213120 - 1 / 2) / 2 ^ 51 < sqrt (7036874417766399 / 2 ^ 50)"
      by (rule real_less_rsqrt) (simp add: power2_eq_square)
    then show ?thesis by (simp add: field_simps)
  qed
  have s4: "sqrt (7036874417766399 / 2 ^ 50) * 2 ^ 51 < 5629499534213120 + 1 / 2"
  proof -
    have "sqrt (7036874417766399 / 2 ^ 50) < (5629499534213120 + 1 / 2) / 2 ^ 51"
      by (rule real_less_lsqrt) (simp_all add: power2_eq_square)
    then show ?thesis by (simp add: field_simps)
  qed
  have rt: "rnd (sqrt (7036874417766399 / 2 ^ 50)) = Fin (of_int 5629499534213120 * 2 powi (1 - 52))"
    using s1 s2 s3 s4 by (intro rnd_to) (simp_all add: power_int_minus)
  show ?thesis
    using sq hf rt by (simp add: Math_pow_2_def power_int_minus)
qed

section \<open>Lemmas on the update step\<close>

lemmas sample_defs = emptyOptions_def sampleMap_def wrappingMap_def sampleLayout_def
  samplePopup_def sampleAttaching_def sampleOpen_def sampleWrapped_def

lemmas popup_defs = Popup_new_def extend_options_def defaultOptions_def
  addTo_def map_on_def map_off_def fire_def Popup_update_def createContainer_def
  positionContainer_def DOM_create_def DOM_remove_def DOM_setTransform_def
  applyAnchorClass_def appendChild_def classList_add_def setLngLat_def setDOMContent_def
  setText_def Popup_createContent_def Popup_remove_def isOpen_def getLngLat_def
  autoAnchor_def anchorComponents_def Point_add_def Point_round_def js_sub_def js_gt_def
  smartWrap_def Let_def

lemma keys_normalizeOffset: "map fst (normalizeOffset off) = anchorNames"
  by (induction off rule: normalizeOffset.induct) (simp_all add: anchorNames_def Let_def)

lemma map_of_normalizeOffset:
  assumes "a \<in> set anchorNames"
  shows "\<exists>off. map_of (normalizeOffset off0) a = Some off"
proof -
  have "a \<in> fst ` set (normalizeOffset off0)"
    using assms keys_normalizeOffset [of off0] by (metis image_set)
  then show ?thesis
    by (metis map_of_eq_None_iff not_None_eq)
qed

lemma autoAnchor_in_names: "autoAnchor pos w h tw th ob \<in> set anchorNames"
  by (simp add: autoAnchor_def anchorComponents_def anchorNames_def Let_def)

lemma createContainer_frame:
  "Popup_map (state_of (createContainer c p)) = Popup_map p \<and>
   Popup_lngLat (state_of (createContainer c p)) = Popup_lngLat p \<and>
   Popup_pos (state_of (createContainer c p)) = Popup_pos p \<and>
   options (state_of (createContainer c p)) = options p \<and>
   effects (state_of (createContainer c p)) = effects p"
  by (simp add: createContainer_def Let_def split: option.splits outcome.splits)

lemma createContainer_container:
  "\<exists>ct. Popup_container (state_of (createContainer c p)) = Some ct"
  by (simp add: createContainer_def Let_def split: option.splits outcome.splits)

lemma createContainer_content:
  "\<exists>c'. Popup_content (state_of (createContainer c p)) = Some c' \<and> parentNode c' = Some PopupContainer"
  by (simp add: createContainer_def Let_def split: option.splits outcome.splits)

lemma positionContainer_lngLat:
  "Popup_lngLat (state_of (positionContainer lay m ll p)) =
     Some (if renderWorldCopies (transform m) then smartWrap ll (Popup_pos p) (transform m) else ll)"
  by (simp add: positionContainer_def Let_def split: option.splits)

lemma positionContainer_frame:
  "Popup_map (state_of (positionContainer lay m ll p)) = Popup_map p \<and>
   options (state_of (positionContainer lay m ll p)) = options p \<and>
   effects (state_of (positionContainer lay m ll p)) = effects p \<and>
   Popup_content (state_of (positionContainer lay m ll p)) = Popup_content p"
  by (simp add: positionContainer_def Let_def split: option.splits)


lemma Popup_update_noop:
  "Popup_map p = None \<or> Popup_lngLat p = None \<or> Popup_content p = None \<Longrightarrow>
   Popup_update lay p = Returned p"
  by (auto simp add: Popup_update_def split: option.splits)

lemma positionContainer_Returned:
  assumes "positionContainer lay m ll p = Returned p'"
  shows "\<exists>ct0 ct a off wrapped pos.
     Popup_container p = Some ct0 \<and>
     wrapped = (if renderWorldCopies (transform m)
                then smartWrap ll (Popup_pos p) (transform m) else ll) \<and>
     pos = project m wrapped \<and>
     Popup_lngLat p' = Some wrapped \<and> Popup_pos p' = Some pos \<and>
     (if truthy_string (anchor (options p)) then anchor (options p) = Some a
      else \<exists>ob. map_of (normalizeOffset (offset (options p))) ''bottom'' = Some ob \<and>
           a = autoAnchor pos (offsetWidth lay) (offsetHeight lay)
                 (width (transform m)) (height (transform m)) ob) \<and>
     map_of (normalizeOffset (offset (options p))) a = Some off \<and>
     Popup_container p' = Some ct \<and>
     style_transform ct = Some (a, Point_round (Point_add pos off)) \<and>
     anchorClass ct = Some (a, ''popup'')"
  using assms
  by (auto simp add: positionContainer_def Let_def DOM_setTransform_def applyAnchorClass_def
      split: option.splits if_splits)

lemma convert_entry_or_zero:
  "Point_convert (entry_or_zero m a) = (case m a of None \<Rightarrow> Point (Fin 0) (Fin 0) | Some v \<Rightarrow> Point_convert v)"
  by (simp add: entry_or_zero_def split: option.splits)

lemma map_of_OffsetMap:
  "a \<in> set anchorNames \<Longrightarrow>
   map_of (normalizeOffset (Some (OffsetMap m))) a = Some (Point_convert (entry_or_zero m a))"
  by (auto simp add: anchorNames_def)

lemma entry_or_zero_other: "k \<noteq> a \<Longrightarrow> entry_or_zero (m(k := v)) a = entry_or_zero m a"
  by (simp add: entry_or_zero_def)

lemma OffsetMap_other_key:
  assumes "k \<notin> set anchorNames"
  shows "normalizeOffset (Some (OffsetMap (m(k := v)))) = normalizeOffset (Some (OffsetMap m))"
proof -
  have "\<And>a. a \<in> set anchorNames \<Longrightarrow> entry_or_zero (m(k := v)) a = entry_or_zero m a"
    using assms by (metis entry_or_zero_other)
  then show ?thesis by (simp add: anchorNames_def)
qed

lemma autoAnchor_spec:
  "autoAnchor pos w h tw th ob =
     spec_combine (spec_verticalComponent pos h th ob) (spec_horizontalComponent pos w tw)"
  by (simp add: autoAnchor_def anchorComponents_def spec_combine_def
      spec_verticalComponent_def spec_horizontalComponent_def Let_def)

lemma sampleAttaching_eval:
  "Popup_map sampleAttaching = Some sampleMap \<and>
   Popup_lngLat sampleAttaching = Some \<lparr>lng = 10, lat = 10\<rparr> \<and>
   (\<exists>c. Popup_content sampleAttaching = Some c) \<and>
   Popup_container sampleAttaching = None \<and>
   anchor (options sampleAttaching) = None \<and>
   offset (options sampleAttaching) = None"
  by (simp add: sample_defs popup_defs)

lemma Popup_update_Returned:
  assumes "Popup_map p = Some m" and "Popup_lngLat p = Some ll" and "Popup_content p = Some c"
    and "returned (Popup_update lay p)"
  shows "\<exists>ct a off wrapped pos.
     wrapped = (if renderWorldCopies (transform m)
                then smartWrap ll (Popup_pos p) (transform m) else ll) \<and>
     pos = project m wrapped \<and>
     Popup_lngLat (state_of (Popup_update lay p)) = Some wrapped \<and>
     Popup_pos (state_of (Popup_update lay p)) = Some pos \<and>
     (if truthy_string (anchor (options p)) then anchor (options p) = Some a
      else \<exists>ob. map_of (normalizeOffset (offset (options p))) ''bottom'' = Some ob \<and>
           a = autoAnchor pos (offsetWidth lay) (offsetHeight lay)
                 (width (transform m)) (height (transform m)) ob) \<and>
     map_of (normalizeOffset (offset (options p))) a = Some off \<and>
     Popup_container (state_of (Popup_update lay p)) = Some ct \<and>
     style_transform ct = Some (a, Point_round (Point_add pos off)) \<and>
     anchorClass ct = Some (a, ''popup'')"
proof -
  define q where "q = (case Popup_container p of None \<Rightarrow> createContainer c p | Some ct \<Rightarrow> Returned p)"
  have upd: "Popup_update lay p =
      (case q of Thrown e p1 \<Rightarrow> Thrown e p1 | Returned p1 \<Rightarrow> positionContainer lay m ll p1)"
    using assms(1-3) by (simp add: Popup_update_def q_def)
  with assms(4) obtain p1 where q: "q = Returned p1"
    by (cases q) auto
  have frame: "Popup_pos p1 = Popup_pos p \<and> options p1 = options p"
  proof (cases "Popup_container p")
    case None
    then show ?thesis using q createContainer_frame [of c p] by (simp add: q_def)
  next
    case (Some ct)
    then show ?thesis using q by (simp add: q_def)
  qed
  from upd q have upd': "Popup_update lay p = positionContainer lay m ll p1" by simp
  with assms(4) obtain p' where p': "positionContainer lay m ll p1 = Returned p'"
    by (cases "positionContainer lay m ll p1") auto
  from frame have f1: "Popup_pos p1 = Popup_pos p" and f2: "options p1 = options p"
    by simp_all
  note R = positionContainer_Returned [OF p', unfolded f1 f2]
  from R show ?thesis
    unfolding upd' p' state_of.simps by blast
qed

lemma addClasses_not_TypeError: "addClasses ns el = Thrown e el' \<Longrightarrow> e \<noteq> TypeError"
  by (induction ns arbitrary: el) (auto simp add: classList_add_def split: if_splits outcome.splits)

lemma createContainer_not_TypeError: "createContainer c p = Thrown e s \<Longrightarrow> e \<noteq> TypeError"
  by (auto simp add: createContainer_def Let_def split: option.splits if_splits outcome.splits
      dest: addClasses_not_TypeError)

lemma positionContainer_auto_returns:
  assumes "Popup_container p = Some ct" and "\<not> truthy_string (anchor (options p))"
  shows "returned (positionContainer lay m ll p)"
proof -
  obtain ob where ob: "map_of (normalizeOffset (offset (options p))) ''bottom'' = Some ob"
    using map_of_normalizeOffset [of "''bottom''"] by (auto simp add: anchorNames_def)
  define pos where "pos = project m (if renderWorldCopies (transform m)
                     then smartWrap ll (Popup_pos p) (transform m) else ll)"
  define a where "a = autoAnchor pos (offsetWidth lay) (offsetHeight lay)
                        (width (transform m)) (height (transform m)) ob"
  obtain off where off: "map_of (normalizeOffset (offset (options p))) a = Some off"
    using map_of_normalizeOffset [OF autoAnchor_in_names] unfolding a_def by blast
  show ?thesis
    using assms ob off by (simp add: positionContainer_def Let_def a_def pos_def)
qed

lemma Popup_update_auto_no_TypeError:
  assumes "\<not> truthy_string (anchor (options p))"
  shows "Popup_update lay p \<noteq> Thrown TypeError s"
proof (cases "Popup_map p = None \<or> Popup_lngLat p = None \<or> Popup_content p = None")
  case True
  then show ?thesis using Popup_update_noop [of p lay] by simp
next
  case False
  then obtain m ll c where mlc: "Popup_map p = Some m" "Popup_lngLat p = Some ll" "Popup_content p = Some c"
    by auto
  define q where "q = (case Popup_container p of None \<Rightarrow> createContainer c p | Some ct \<Rightarrow> Returned p)"
  have upd: "Popup_update lay p =
      (case q of Thrown e p1 \<Rightarrow> Thrown e p1 | Returned p1 \<Rightarrow> positionContainer lay m ll p1)"
    using mlc by (simp add: Popup_update_def q_def)
  show ?thesis
  proof (cases q)
    case (Thrown e p1)
    then have "createContainer c p = Thrown e p1"
      by (cases "Popup_container p") (simp_all add: q_def)
    then have "e \<noteq> TypeError" by (rule createContainer_not_TypeError)
    with upd Thrown show ?thesis by simp
  next
    case (Returned p1)
    have "\<exists>ct. Popup_container p1 = Some ct \<and> options p1 = options p"
    proof (cases "Popup_container p")
      case None
      then show ?thesis
        using Returned createContainer_container [of c p] createContainer_frame [of c p]
        by (simp add: q_def)
    next
      case (Some ct)
      then show ?thesis using Returned by (simp add: q_def)
    qed
    then obtain ct where "Popup_container p1 = Some ct" and "options p1 = options p" by blast
    with assms have "returned (positionContainer lay m ll p1)"
      by (simp add: positionContainer_auto_returns)
    with upd Returned show ?thesis
      by (cases "positionContainer lay m ll p1") simp_all
  qed
qed


lemma createContainer_returns:
  "\<not> truthy_string (className (options p)) \<Longrightarrow> returned (createContainer c p)"
  by (cases "className (options p)") (simp_all add: createContainer_def Let_def)

lemma Popup_update_auto_returns:
  assumes "\<not> truthy_string (anchor (options p))"
    and "Popup_container p \<noteq> None \<or> \<not> truthy_string (className (options p))"
  shows "returned (Popup_update lay p)"
proof (cases "Popup_map p = None \<or> Popup_lngLat p = None \<or> Popup_content p = None")
  case True
  then show ?thesis using Popup_update_noop [of p lay] by simp
next
  case False
  then obtain m ll c where mlc: "Popup_map p = Some m" "Popup_lngLat p = Some ll"
    "Popup_content p = Some c"
    by auto
  define q where "q = (case Popup_container p of None \<Rightarrow> createContainer c p | Some ct \<Rightarrow> Returned p)"
  have upd: "Popup_update lay p =
      (case q of Thrown e p1 \<Rightarrow> Thrown e p1 | Returned p1 \<Rightarrow> positionContainer lay m ll p1)"
    using mlc by (simp add: Popup_update_def q_def)
  have rq: "returned q"
  proof (cases "Popup_container p")
    case None
    with assms(2) show ?thesis by (simp add: q_def createContainer_returns)
  next
    case (Some ct)
    then show ?thesis by (simp add: q_def)
  qed
  then obtain p1 where q: "q = Returned p1" by (cases q) auto
  have "\<exists>ct. Popup_container p1 = Some ct \<and> options p1 = options p"
  proof (cases "Popup_container p")
    case None
    then show ?thesis
      using q createContainer_container [of c p] createContainer_frame [of c p]
      by (simp add: q_def)
  next
    case (Some ct)
    then show ?thesis using q by (simp add: q_def)
  qed
  then obtain ct where "Popup_container p1 = Some ct" and "options p1 = options p" by blast
  with assms(1) have "returned (positionContainer lay m ll p1)"
    by (simp add: positionContainer_auto_returns)
  with upd q show ?thesis by simp
qed

lemma sampleAttaching_returns: "returned (Popup_update sampleLayout sampleAttaching)"
  by (simp add: sample_defs popup_defs)

lemma sampleAttaching_pos:
  "Popup_pos (state_of (Popup_update sampleLayout sampleAttaching)) =
     Some (Point (Fin 10) (Fin 10))"
  by (simp add: sample_defs popup_defs)


lemma new_popup_fields:
  "Popup_map (Popup_new opts) = None \<and> Popup_lngLat (Popup_new opts) = None \<and>
   Popup_content (Popup_new opts) = None \<and> Popup_container (Popup_new opts) = None"
  by (simp add: Popup_new_def)

lemma sampleOffsetPopup_eval:
  "Popup_map sampleOffsetPopup = Some sampleMap \<and>
   Popup_lngLat sampleOffsetPopup = Some \<lparr>lng = 100.5, lat = 40.25\<rparr> \<and>
   Popup_content sampleOffsetPopup \<noteq> None \<and>
   Popup_container sampleOffsetPopup = None \<and>
   Popup_pos sampleOffsetPopup = None \<and>
   anchor (options sampleOffsetPopup) = None \<and>
   className (options sampleOffsetPopup) = Some [] \<and>
   offset (options sampleOffsetPopup) = Some (OffsetNumber (Fin 10))"
  by (simp add: sampleOffsetPopup_def sample_defs popup_defs)

lemma rnd_201_halves: "rnd (201 / 2) = Fin (201 / 2)"
  using rnd_halves [of 201] by simp

lemma rnd_121_quarters: "rnd (121 / 4) = Fin (121 / 4)"
  using rnd_quarters [of 121] by simp

lemma sampleOffsetPopup_update:
  "returned (Popup_update sampleLayout sampleOffsetPopup) \<and>
   Popup_pos (state_of (Popup_update sampleLayout sampleOffsetPopup)) =
     Some (Point (Fin 100.5) (Fin 40.25)) \<and>
   (\<exists>ct. Popup_container (state_of (Popup_update sampleLayout sampleOffsetPopup)) = Some ct \<and>
     anchorClass ct = Some (''bottom'', ''popup''))"
  using sampleOffsetPopup_eval
  apply (simp add: Popup_update_def createContainer_def Let_def split: option.splits)
  apply (simp add: positionContainer_def sampleMap_def sampleLayout_def DOM_create_def Let_def
      autoAnchor_def anchorComponents_def applyAnchorClass_def DOM_setTransform_def
      js_sub_def js_gt_def rnd_121_quarters)
  done

lemma Popup_update_map: "Popup_map (state_of (Popup_update lay p)) = Popup_map p"
proof (cases "Popup_map p = None \<or> Popup_lngLat p = None \<or> Popup_content p = None")
  case True
  then show ?thesis using Popup_update_noop [of p lay] by simp
next
  case False
  then obtain m ll c where mlc: "Popup_map p = Some m" "Popup_lngLat p = Some ll" "Popup_content p = Some c"
    by auto
  define q where "q = (case Popup_container p of None \<Rightarrow> createContainer c p | Some ct \<Rightarrow> Returned p)"
  have upd: "Popup_update lay p =
      (case q of Thrown e p1 \<Rightarrow> Thrown e p1 | Returned p1 \<Rightarrow> positionContainer lay m ll p1)"
    using mlc by (simp add: Popup_update_def q_def)
  have q: "Popup_map (state_of q) = Popup_map p"
    using createContainer_frame [of c p] by (cases "Popup_container p") (simp_all add: q_def)
  show ?thesis
  proof (cases q)
    case (Returned p1)
    with upd q positionContainer_frame [of lay m ll p1] show ?thesis by simp
  next
    case (Thrown e p1)
    with upd q show ?thesis by simp
  qed
qed

lemma addTo_map: "Popup_map (state_of (addTo lay m p)) = Some m"
proof -
  define p3 where "p3 = (let p1 = p\<lparr>Popup_map := Some m\<rparr>;
          p2 = map_on ''move'' ''_update'' p1
      in if truthy_bool (closeOnClick (options p2))
                then map_on ''click'' ''_onClickClose'' p2 else p2)"
  have m: "Popup_map p3 = Some m" by (simp add: p3_def map_on_def Let_def)
  have "addTo lay m p = (case Popup_update lay p3 of
           Thrown e p4 \<Rightarrow> Thrown e p4
         | Returned p4 \<Rightarrow> Returned (fire ''open'' p4))"
    by (simp add: addTo_def p3_def Let_def)
  then have "Popup_map (state_of (addTo lay m p)) = Popup_map (state_of (Popup_update lay p3))"
    by (cases "Popup_update lay p3") (simp_all add: fire_def)
  with m show ?thesis by (simp add: Popup_update_map)
qed

lemma Popup_remove_map: "Popup_map (Popup_remove p) = None"
  by (simp add: Popup_remove_def Let_def fire_def map_off_def split: option.splits)

lemma Popup_createContent_frame:
  "Popup_map (Popup_createContent p) = Popup_map p \<and>
   Popup_container (Popup_createContent p) = Popup_container p \<and>
   (\<exists>c. Popup_content (Popup_createContent p) = Some c \<and>
        (parentNode c = None) = (Popup_container p = None))"
  by (simp add: Popup_createContent_def Let_def DOM_create_def split: option.splits)

lemma setDOMContent_map: "Popup_map (state_of (setDOMContent lay n p)) = Popup_map p"
  using Popup_createContent_frame [of p]
  by (auto simp add: setDOMContent_def Let_def Popup_update_map)

lemma setLngLat_map: "Popup_map (state_of (setLngLat lay l p)) = Popup_map p"
  by (simp add: setLngLat_def Popup_update_map)















lemma Popup_update_lngLat:
  assumes "Popup_lngLat p = Some ll"
  shows "\<exists>k::int. Popup_lngLat (state_of (Popup_update lay p)) =
            Some (ll\<lparr>lng := lng ll + 360 * of_int k\<rparr>) \<and>
          (wrapsWorldCopies p \<or> k = 0)"
proof (cases "Popup_map p = None \<or> Popup_content p = None")
  case True
  then have "Popup_update lay p = Returned p" using Popup_update_noop [of p lay] by blast
  with assms have "Popup_lngLat (state_of (Popup_update lay p)) =
            Some (ll\<lparr>lng := lng ll + 360 * of_int 0\<rparr>)" by simp
  then show ?thesis by blast
next
  case False
  then obtain m c where mc: "Popup_map p = Some m" "Popup_content p = Some c"
    by auto
  define q where "q = (case Popup_container p of None \<Rightarrow> createContainer c p | Some ct \<Rightarrow> Returned p)"
  have upd: "Popup_update lay p =
      (case q of Thrown e p1 \<Rightarrow> Thrown e p1 | Returned p1 \<Rightarrow> positionContainer lay m ll p1)"
    using mc assms by (simp add: Popup_update_def q_def)
  have q: "Popup_lngLat (state_of q) = Some ll"
    using createContainer_frame [of c p] assms by (cases "Popup_container p") (simp_all add: q_def)
  show ?thesis
  proof (cases q)
    case (Thrown e p1)
    with upd q have "Popup_lngLat (state_of (Popup_update lay p)) =
            Some (ll\<lparr>lng := lng ll + 360 * of_int 0\<rparr>)" by simp
    then show ?thesis by blast
  next
    case (Returned p1)
    show ?thesis
    proof (cases "renderWorldCopies (transform m)")
      case True
      with upd Returned positionContainer_lngLat [of lay m ll p1]
      have "Popup_lngLat (state_of (Popup_update lay p)) =
            Some (ll\<lparr>lng := lng ll + 360 * of_int (wrapTurns (transform m) ll (Popup_pos p1))\<rparr>)"
        by (simp add: smartWrap_def)
      moreover from True mc have "wrapsWorldCopies p" by (simp add: wrapsWorldCopies_def)
      ultimately show ?thesis by blast
    next
      case False
      with upd Returned positionContainer_lngLat [of lay m ll p1]
      have "Popup_lngLat (state_of (Popup_update lay p)) =
            Some (ll\<lparr>lng := lng ll + 360 * of_int 0\<rparr>)" by simp
      then show ?thesis by blast
    qed
  qed
qed

lemma sampleOpen_not_wrapping: "\<not> wrapsWorldCopies sampleOpen"
  by (simp add: wrapsWorldCopies_def sampleOpen_def addTo_map sampleMap_def)

lemma sampleWrapped_wrapping: "wrapsWorldCopies sampleWrapped"
  by (simp add: wrapsWorldCopies_def sampleWrapped_def addTo_map wrappingMap_def)

lemma sampleWrapped_value:
  "sampleWrapped =
     \<lparr>Popup_map = Some wrappingMap,
      options = \<lparr>closeButton = Some True, closeOnClick = Some True, anchor = None,
                 offset = None, className = Some []\<rparr>,
      Popup_content =
        Some \<lparr>tagName = ''div'', classList = [''mapboxgl-popup-content''], parentNode = None,
              childNodes = [TextNode ''hi''], attributes = [], innerHTML = [],
              eventListeners = [], style_transform = None, anchorClass = None\<rparr>,
      Popup_container = None,
      Popup_closeButton =
        Some \<lparr>tagName = ''button'', classList = [''mapboxgl-popup-close-button''],
              parentNode = Some PopupContent, childNodes = [],
              attributes = [(''type'', ''button''), (''aria-label'', ''Close popup'')],
              innerHTML = ''&#215;'', eventListeners = [(''click'', ''_onClickClose'')],
              style_transform = None, anchorClass = None\<rparr>,
      Popup_tip = None,
      Popup_lngLat = None,
      Popup_pos = None,
      effects = [MapOn ''move'' ''_update'', MapOn ''click'' ''_onClickClose'', Fire ''open'']\<rparr>"
  by (simp add: sample_defs popup_defs)

lemma sampleWrapped_setLngLat:
  "getLngLat (state_of (setLngLat sampleLayout (LngLatArray 370 10) sampleWrapped)) =
     Some \<lparr>lng = 10, lat = 10\<rparr>"
  unfolding sampleWrapped_value
  by (simp add: wrappingMap_def sampleLayout_def popup_defs)


lemma sampleCentrePopup_eval:
  "Popup_map sampleCentrePopup = Some sampleMap \<and>
   Popup_lngLat sampleCentrePopup = Some \<lparr>lng = 100, lat = 50\<rparr> \<and>
   Popup_content sampleCentrePopup \<noteq> None \<and>
   Popup_container sampleCentrePopup = None \<and>
   Popup_pos sampleCentrePopup = None \<and>
   anchor (options sampleCentrePopup) = None \<and>
   className (options sampleCentrePopup) = Some [] \<and>
   offset (options sampleCentrePopup) = None"
  by (simp add: sampleCentrePopup_def sample_defs popup_defs)

lemma sampleCentrePopup_update:
  "returned (Popup_update sampleLayout sampleCentrePopup) \<and>
   Popup_pos (state_of (Popup_update sampleLayout sampleCentrePopup)) =
     Some (Point (Fin 100) (Fin 50))"
  using sampleCentrePopup_eval
  apply (simp add: Popup_update_def createContainer_def Let_def split: option.splits)
  apply (simp add: positionContainer_def sampleMap_def sampleLayout_def DOM_create_def Let_def
      autoAnchor_def anchorComponents_def applyAnchorClass_def DOM_setTransform_def
      js_sub_def js_gt_def)
  done

lemma nonnegative_spec_cornerOffset: "r \<noteq> NaN \<Longrightarrow> nonnegative (spec_cornerOffset r)"
  unfolding spec_cornerOffset_def
  by (intro nonnegative_Math_round nonnegative_Math_sqrt nonnegative_half nonnegative_square)

lemma spec_cornerOffset_zero: "spec_cornerOffset (Fin 0) = Fin 0"
  by (simp add: spec_cornerOffset_def Math_pow_2_def)

lemma spec_cornerOffset_NaN: "spec_cornerOffset NaN = NaN"
  by (simp add: spec_cornerOffset_def Math_pow_2_def)

lemma spec_cornerOffset_neg: "spec_cornerOffset (js_neg r) = spec_cornerOffset r"
  by (simp add: spec_cornerOffset_def)

lemma falsy_number_cases: "falsy_number r \<Longrightarrow> r = NaN \<or> r = Fin 0"
  by (cases r) simp_all

lemma zero_table:
  "falsy_number r \<Longrightarrow>
   normalizeOffset (Some (OffsetNumber r)) =
     normalizeOffset (Some (OffsetPoint (PointObject (Point (Fin 0) (Fin 0)))))"
  by simp

lemma radius_table:
  "\<not> falsy_number r \<Longrightarrow>
   normalizeOffset (Some (OffsetNumber r)) =
     [(''center'', Point (Fin 0) (Fin 0)),
      (''top'', Point (Fin 0) r),
      (''top-left'', Point (spec_cornerOffset r) (spec_cornerOffset r)),
      (''top-right'', Point (js_neg (spec_cornerOffset r)) (spec_cornerOffset r)),
      (''bottom'', Point (Fin 0) (js_neg r)),
      (''bottom-left'', Point (spec_cornerOffset r) (js_neg (spec_cornerOffset r))),
      (''bottom-right'', Point (js_neg (spec_cornerOffset r)) (js_neg (spec_cornerOffset r))),
      (''left'', Point r (Fin 0)),
      (''right'', Point (js_neg r) (Fin 0))]"
  by (simp add: spec_cornerOffset_def Let_def)

section \<open>The normalized offset table\<close>

text \<open>
  C5, as amended. For every numeric radius \<open>r\<close> the table built from \<open>r\<close> is
  bilaterally symmetric: the entry of left is the negation of the entry of right, and the
  entry of top the negation of the entry of bottom. For every radius other than NaN each
  of the four corner entries has, on each axis, the magnitude \<open>round(sqrt(0.5 * r^2))\<close>,
  computed in double arithmetic. (The radius 0 is falsy and takes the branch of the zero
  point, where this holds too.)
\<close>

theorem radius_table_symmetric:
  "\<exists>l rt tp bt tl tr bl br.
     map_of (normalizeOffset (Some (OffsetNumber r))) ''left'' = Some l \<and>
     map_of (normalizeOffset (Some (OffsetNumber r))) ''right'' = Some rt \<and>
     map_of (normalizeOffset (Some (OffsetNumber r))) ''top'' = Some tp \<and>
     map_of (normalizeOffset (Some (OffsetNumber r))) ''bottom'' = Some bt \<and>
     map_of (normalizeOffset (Some (OffsetNumber r))) ''top-left'' = Some tl \<and>
     map_of (normalizeOffset (Some (OffsetNumber r))) ''top-right'' = Some tr \<and>
     map_of (normalizeOffset (Some (OffsetNumber r))) ''bottom-left'' = Some bl \<and>
     map_of (normalizeOffset (Some (OffsetNumber r))) ''bottom-right'' = Some br \<and>
     x l = js_neg (x rt) \<and> y l = js_neg (y rt) \<and>
     x tp = js_neg (x bt) \<and> y tp = js_neg (y bt) \<and>
     (r \<noteq> NaN \<longrightarrow>
        Math_abs (x tl) = spec_cornerOffset r \<and> Math_abs (y tl) = spec_cornerOffset r \<and>
        Math_abs (x tr) = spec_cornerOffset r \<and> Math_abs (y tr) = spec_cornerOffset r \<and>
        Math_abs (x bl) = spec_cornerOffset r \<and> Math_abs (y bl) = spec_cornerOffset r \<and>
        Math_abs (x br) = spec_cornerOffset r \<and> Math_abs (y br) = spec_cornerOffset r)"
proof (cases "falsy_number r")
  case True
  then have "r = NaN \<or> r = Fin 0" by (rule falsy_number_cases)
  then show ?thesis
    by (auto simp add: Let_def spec_cornerOffset_zero)
next
  case False
  then have "r \<noteq> NaN" by auto
  then have "Math_abs (spec_cornerOffset r) = spec_cornerOffset r"
    by (intro Math_abs_nonnegative nonnegative_spec_cornerOffset)
  then show ?thesis
    unfolding radius_table [OF False] by simp
qed

theorem radius_table_symmetric_witness:
  "Fin 10 \<noteq> NaN \<and>
   (\<exists>tl br. map_of (normalizeOffset (Some (OffsetNumber (Fin 10)))) ''top-left'' = Some tl \<and>
      map_of (normalizeOffset (Some (OffsetNumber (Fin 10)))) ''bottom-right'' = Some br \<and>
      Math_abs (x tl) = Fin 7 \<and> Math_abs (y tl) = Fin 7 \<and>
      Math_abs (x br) = Fin 7 \<and> Math_abs (y br) = Fin 7)"
proof -
  have c: "spec_cornerOffset (Fin 10) = Fin 7"
    unfolding spec_cornerOffset_def by (rule corner_of_10)
  from radius_table_symmetric [of "Fin 10"] show ?thesis
    unfolding c by auto
qed

text \<open>
  C5 as stated fails at the radius NaN, a number that is falsy: the table is the one of
  the zero point, its corner entries have the magnitude 0, and \<open>round(sqrt(0.5 * r^2))\<close>
  is NaN.
\<close>

theorem radius_NaN_corner_magnitude:
  "map_of (normalizeOffset (Some (OffsetNumber NaN))) ''top-left'' = Some (Point (Fin 0) (Fin 0)) \<and>
   Math_abs (x (Point (Fin 0) (Fin 0))) = Fin 0 \<and>
   spec_cornerOffset NaN = NaN \<and>
   Math_abs (x (Point (Fin 0) (Fin 0))) \<noteq> spec_cornerOffset NaN"
  by (simp add: Let_def spec_cornerOffset_NaN)

text \<open>
  C10, as amended. For every numeric radius \<open>r\<close>, negative ones included, the tables
  of \<open>r\<close> and of \<open>- r\<close> have the same four corner entries, and the four
  straight-edge entries of the one are the negations of those of the other: the corners
  do not mirror with the sign of the radius, the edges do. For every radius other than
  NaN the corner entries are built from \<open>c = round(sqrt(0.5 * r^2))\<close>, computed in
  double arithmetic, which is not negative.
\<close>

theorem radius_corners_sign_blind:
  "(\<exists>tl tr bl br tp bt l rt.
      map_of (normalizeOffset (Some (OffsetNumber r))) ''top-left'' = Some tl \<and>
      map_of (normalizeOffset (Some (OffsetNumber (js_neg r)))) ''top-left'' = Some tl \<and>
      map_of (normalizeOffset (Some (OffsetNumber r))) ''top-right'' = Some tr \<and>
      map_of (normalizeOffset (Some (OffsetNumber (js_neg r)))) ''top-right'' = Some tr \<and>
      map_of (normalizeOffset (Some (OffsetNumber r))) ''bottom-left'' = Some bl \<and>
      map_of (normalizeOffset (Some (OffsetNumber (js_neg r)))) ''bottom-left'' = Some bl \<and>
      map_of (normalizeOffset (Some (OffsetNumber r))) ''bottom-right'' = Some br \<and>
      map_of (normalizeOffset (Some (OffsetNumber (js_neg r)))) ''bottom-right'' = Some br \<and>
      map_of (normalizeOffset (Some (OffsetNumber r))) ''top'' = Some tp \<and>
      map_of (normalizeOffset (Some (OffsetNumber (js_neg r)))) ''top'' =
        Some (Point (js_neg (x tp)) (js_neg (y tp))) \<and>
      map_of (normalizeOffset (Some (OffsetNumber r))) ''bottom'' = Some bt \<and>
      map_of (normalizeOffset (Some (OffsetNumber (js_neg r)))) ''bottom'' =
        Some (Point (js_neg (x bt)) (js_neg (y bt))) \<and>
      map_of (normalizeOffset (Some (OffsetNumber r))) ''left'' = Some l \<and>
      map_of (normalizeOffset (Some (OffsetNumber (js_neg r)))) ''left'' =
        Some (Point (js_neg (x l)) (js_neg (y l))) \<and>
      map_of (normalizeOffset (Some (OffsetNumber r))) ''right'' = Some rt \<and>
      map_of (normalizeOffset (Some (OffsetNumber (js_neg r)))) ''right'' =
        Some (Point (js_neg (x rt)) (js_neg (y rt)))) \<and>
   (r \<noteq> NaN \<longrightarrow>
      (\<exists>c. c = spec_cornerOffset r \<and> nonnegative c \<and>
         map_of (normalizeOffset (Some (OffsetNumber r))) ''top-left'' = Some (Point c c) \<and>
         map_of (normalizeOffset (Some (OffsetNumber r))) ''top-right'' =
           Some (Point (js_neg c) c) \<and>
         map_of (normalizeOffset (Some (OffsetNumber r))) ''bottom-left'' =
           Some (Point c (js_neg c)) \<and>
         map_of (normalizeOffset (Some (OffsetNumber r))) ''bottom-right'' =
           Some (Point (js_neg c) (js_neg c))))"
proof (cases "falsy_number r")
  case True
  then have "r = NaN \<or> r = Fin 0" by (rule falsy_number_cases)
  then show ?thesis
    by (auto simp add: Let_def spec_cornerOffset_zero)
next
  case False
  then have n: "r \<noteq> NaN" by auto
  have f: "\<not> falsy_number (js_neg r)" using False by simp
  from n have "nonnegative (spec_cornerOffset r)"
    by (rule nonnegative_spec_cornerOffset)
  then show ?thesis
    unfolding radius_table [OF False] radius_table [OF f] spec_cornerOffset_neg by simp
qed

theorem radius_corners_sign_blind_witness:
  "Fin 10 \<noteq> NaN \<and>
   map_of (normalizeOffset (Some (OffsetNumber (Fin 10)))) ''top-left'' =
     Some (Point (Fin 7) (Fin 7)) \<and>
   map_of (normalizeOffset (Some (OffsetNumber (Fin (- 10))))) ''top-left'' =
     Some (Point (Fin 7) (Fin 7)) \<and>
   map_of (normalizeOffset (Some (OffsetNumber (Fin 10)))) ''top'' =
     Some (Point (Fin 0) (Fin 10)) \<and>
   map_of (normalizeOffset (Some (OffsetNumber (Fin (- 10))))) ''top'' =
     Some (Point (Fin 0) (Fin (- 10)))"
proof -
  have c: "spec_cornerOffset (Fin 10) = Fin 7"
    unfolding spec_cornerOffset_def by (rule corner_of_10)
  have t: "map_of (normalizeOffset (Some (OffsetNumber (Fin 10)))) ''top'' =
     Some (Point (Fin 0) (Fin 10))"
    by (simp add: Let_def)
  from radius_corners_sign_blind [of "Fin 10"] t show ?thesis
    unfolding c by auto
qed

text \<open>
  C10 as stated fails at the radius NaN: the corner entries of the tables of NaN and of
  its negation are zero, while \<open>round(sqrt(0.5 * r^2))\<close> is NaN, which is not a
  nonnegative value of the axis.
\<close>

theorem radius_NaN_corners_not_the_rounded_root:
  "map_of (normalizeOffset (Some (OffsetNumber NaN))) ''bottom-right'' =
     Some (Point (Fin 0) (Fin 0)) \<and>
   map_of (normalizeOffset (Some (OffsetNumber (js_neg NaN)))) ''bottom-right'' =
     Some (Point (Fin 0) (Fin 0)) \<and>
   js_neg (spec_cornerOffset NaN) = NaN \<and>
   \<not> nonnegative (spec_cornerOffset NaN) \<and>
   Point (Fin 0) (Fin 0) \<noteq> Point (js_neg (spec_cornerOffset NaN)) (js_neg (spec_cornerOffset NaN))"
  by (simp add: Let_def spec_cornerOffset_NaN)

text \<open>
  C6. For every per-anchor mapping, the entry of each of the nine anchor names is the
  mapping's value for that name, converted to a point, when the name is a key, and
  \<open>(0, 0)\<close> when it is not; a key that is none of the nine names has no effect on
  the table.
\<close>

theorem per_anchor_table:
  "(a \<in> set anchorNames \<longrightarrow>
      map_of (normalizeOffset (Some (OffsetMap m))) a =
        Some (case m a of None \<Rightarrow> Point (Fin 0) (Fin 0) | Some v \<Rightarrow> Point_convert v)) \<and>
   (k \<notin> set anchorNames \<longrightarrow>
      normalizeOffset (Some (OffsetMap (m(k := v)))) = normalizeOffset (Some (OffsetMap m)))"
  using map_of_OffsetMap [of a m] convert_entry_or_zero [of m a] OffsetMap_other_key [of k m v]
  by simp

theorem per_anchor_table_witness:
  "''top'' \<in> set anchorNames \<and>
   map_of (normalizeOffset (Some (OffsetMap [''top'' \<mapsto> PointArray (Fin 3) (Fin 4), ''middle'' \<mapsto> PointArray (Fin 1) (Fin 1)]))) ''top'' = Some (Point (Fin 3) (Fin 4)) \<and>
   ''left'' \<in> set anchorNames \<and>
   map_of (normalizeOffset (Some (OffsetMap [''top'' \<mapsto> PointArray (Fin 3) (Fin 4), ''middle'' \<mapsto> PointArray (Fin 1) (Fin 1)]))) ''left'' = Some (Point (Fin 0) (Fin 0)) \<and>
   ''middle'' \<notin> set anchorNames \<and>
   normalizeOffset (Some (OffsetMap [''top'' \<mapsto> PointArray (Fin 3) (Fin 4), ''middle'' \<mapsto> PointArray (Fin 1) (Fin 1)])) =
     normalizeOffset (Some (OffsetMap [''top'' \<mapsto> PointArray (Fin 3) (Fin 4)]))"
  using per_anchor_table [of "''top''" "[''top'' \<mapsto> PointArray (Fin 3) (Fin 4), ''middle'' \<mapsto> PointArray (Fin 1) (Fin 1)]" "''middle''" "Some (PointArray (Fin 1) (Fin 1))"]
    per_anchor_table [of "''left''" "[''top'' \<mapsto> PointArray (Fin 3) (Fin 4)]" "''middle''" "Some (PointArray (Fin 1) (Fin 1))"]
  by (simp add: anchorNames_def)

section \<open>The anchor chosen by an update\<close>

text \<open>
  C3. When no anchor is given, the anchor is a function of the position, the
  container's width and height, the viewport's width and height and the offset table:
  the vertical component is top if \<open>pos.y + offset[bottom].y < height\<close>, else bottom
  if \<open>pos.y > viewportHeight - height\<close>, else empty; the horizontal component is left
  if \<open>pos.x < width / 2\<close>, else right if \<open>pos.x > viewportWidth - width / 2\<close>, else
  empty; the two are joined as vertical-horizontal (one alone stands for itself, none
  gives bottom). For the position (10, 10), a container of 20 by 20, a viewport of 200
  by 200 and a zero offset the anchor is top. An update that renders with no anchor in
  the options applies this anchor to the container. The sums, differences, halves and
  comparisons are those of double arithmetic on both sides.
\<close>

theorem auto_anchor_selection:
  "autoAnchor pos w h tw th ob =
     spec_combine (spec_verticalComponent pos h th ob) (spec_horizontalComponent pos w tw) \<and>
   autoAnchor (Point (Fin 10) (Fin 10)) (Fin 20) (Fin 20) (Fin 200) (Fin 200)
     (Point (Fin 0) (Fin 0)) = ''top'' \<and>
   (Popup_map p = Some m \<and> Popup_lngLat p \<noteq> None \<and> Popup_content p \<noteq> None \<and>
    \<not> truthy_string (anchor (options p)) \<and> returned (Popup_update lay p) \<longrightarrow>
      (\<exists>ct ps ob'.
         Popup_pos (state_of (Popup_update lay p)) = Some ps \<and>
         map_of (normalizeOffset (offset (options p))) ''bottom'' = Some ob' \<and>
         Popup_container (state_of (Popup_update lay p)) = Some ct \<and>
         anchorClass ct =
           Some (spec_combine
                   (spec_verticalComponent ps (offsetHeight lay) (height (transform m)) ob')
                   (spec_horizontalComponent ps (offsetWidth lay) (width (transform m))),
                 ''popup'')))"
proof (intro conjI impI)
  show "autoAnchor pos w h tw th ob =
     spec_combine (spec_verticalComponent pos h th ob) (spec_horizontalComponent pos w tw)"
    by (rule autoAnchor_spec)
  show "autoAnchor (Point (Fin 10) (Fin 10)) (Fin 20) (Fin 20) (Fin 200) (Fin 200)
     (Point (Fin 0) (Fin 0)) = ''top''"
    by (simp add: autoAnchor_def anchorComponents_def js_sub_def js_gt_def)
next
  assume h: "Popup_map p = Some m \<and> Popup_lngLat p \<noteq> None \<and> Popup_content p \<noteq> None \<and>
    \<not> truthy_string (anchor (options p)) \<and> returned (Popup_update lay p)"
  then obtain ll c where "Popup_lngLat p = Some ll" and "Popup_content p = Some c" by auto
  with h Popup_update_Returned [of p m ll c lay]
  show "\<exists>ct ps ob'.
         Popup_pos (state_of (Popup_update lay p)) = Some ps \<and>
         map_of (normalizeOffset (offset (options p))) ''bottom'' = Some ob' \<and>
         Popup_container (state_of (Popup_update lay p)) = Some ct \<and>
         anchorClass ct =
           Some (spec_combine
                   (spec_verticalComponent ps (offsetHeight lay) (height (transform m)) ob')
                   (spec_horizontalComponent ps (offsetWidth lay) (width (transform m))),
                 ''popup'')"
    by (auto simp add: autoAnchor_spec)
qed

theorem auto_anchor_selection_witness:
  "Popup_map sampleAttaching = Some sampleMap \<and> Popup_lngLat sampleAttaching \<noteq> None \<and>
   Popup_content sampleAttaching \<noteq> None \<and>
   \<not> truthy_string (anchor (options sampleAttaching)) \<and>
   returned (Popup_update sampleLayout sampleAttaching) \<and>
   (\<exists>ct. Popup_container (state_of (Popup_update sampleLayout sampleAttaching)) = Some ct \<and>
         anchorClass ct = Some (''top'', ''popup''))"
proof -
  have hyps: "Popup_map sampleAttaching = Some sampleMap \<and> Popup_lngLat sampleAttaching \<noteq> None \<and>
     Popup_content sampleAttaching \<noteq> None \<and>
     \<not> truthy_string (anchor (options sampleAttaching)) \<and>
     returned (Popup_update sampleLayout sampleAttaching)"
    using sampleAttaching_eval sampleAttaching_returns by auto
  have tbl: "map_of (normalizeOffset (offset (options sampleAttaching))) ''bottom'' = Some (Point (Fin 0) (Fin 0))"
    using sampleAttaching_eval by (simp add: Let_def)
  from auto_anchor_selection [of "Point (Fin 10) (Fin 10)" "Fin 20" "Fin 20" "Fin 200" "Fin 200"
      "Point (Fin 0) (Fin 0)" sampleAttaching sampleMap sampleLayout] hyps
  obtain ct ps ob' where
    "Popup_pos (state_of (Popup_update sampleLayout sampleAttaching)) = Some ps"
    "map_of (normalizeOffset (offset (options sampleAttaching))) ''bottom'' = Some ob'"
    "Popup_container (state_of (Popup_update sampleLayout sampleAttaching)) = Some ct"
    "anchorClass ct =
       Some (spec_combine
               (spec_verticalComponent ps (offsetHeight sampleLayout) (height (transform sampleMap)) ob')
               (spec_horizontalComponent ps (offsetWidth sampleLayout) (width (transform sampleMap))),
             ''popup'')"
    by blast
  moreover from this tbl sampleAttaching_pos have "ps = Point (Fin 10) (Fin 10)"
    and "ob' = Point (Fin 0) (Fin 0)"
    by simp_all
  ultimately have "Popup_container (state_of (Popup_update sampleLayout sampleAttaching)) = Some ct \<and>
         anchorClass ct = Some (''top'', ''popup'')"
    by (simp add: spec_combine_def spec_verticalComponent_def spec_horizontalComponent_def
        sampleLayout_def sampleMap_def js_sub_def js_gt_def)
  with hyps show ?thesis by blast
qed

text \<open>
  C4. When no anchor is given and neither the vertical nor the horizontal condition
  holds, an update that renders gives the container the anchor bottom. Automatic
  selection never leaves the anchor unresolved: the anchor an update applies is one of the
  nine names and has an entry in the normalized table, an update with no anchor in the
  options never fails on a missing anchor or entry, and it returns whenever the container
  exists already or the options name no class.
\<close>

theorem auto_anchor_fallback:
  "(Popup_map p = Some m \<and> Popup_lngLat p \<noteq> None \<and> Popup_content p \<noteq> None \<and>
    \<not> truthy_string (anchor (options p)) \<and> returned (Popup_update lay p) \<longrightarrow>
      (\<exists>ct pos ob a off.
         Popup_pos (state_of (Popup_update lay p)) = Some pos \<and>
         map_of (normalizeOffset (offset (options p))) ''bottom'' = Some ob \<and>
         Popup_container (state_of (Popup_update lay p)) = Some ct \<and>
         anchorClass ct = Some (a, ''popup'') \<and>
         style_transform ct = Some (a, Point_round (Point_add pos off)) \<and>
         a \<in> set anchorNames \<and>
         map_of (normalizeOffset (offset (options p))) a = Some off \<and>
         (\<not> js_lt (js_add (y pos) (y ob)) (offsetHeight lay) \<and>
          \<not> js_gt (y pos) (js_sub (height (transform m)) (offsetHeight lay)) \<and>
          \<not> js_lt (x pos) (js_half (offsetWidth lay)) \<and>
          \<not> js_gt (x pos) (js_sub (width (transform m)) (js_half (offsetWidth lay))) \<longrightarrow>
            a = ''bottom''))) \<and>
   (\<not> truthy_string (anchor (options p)) \<longrightarrow> Popup_update lay p \<noteq> Thrown TypeError s) \<and>
   (\<not> truthy_string (anchor (options p)) \<and>
    (Popup_container p \<noteq> None \<or> \<not> truthy_string (className (options p))) \<longrightarrow>
      returned (Popup_update lay p))"
proof (intro conjI)
  show "Popup_map p = Some m \<and> Popup_lngLat p \<noteq> None \<and> Popup_content p \<noteq> None \<and>
    \<not> truthy_string (anchor (options p)) \<and> returned (Popup_update lay p) \<longrightarrow>
      (\<exists>ct pos ob a off.
         Popup_pos (state_of (Popup_update lay p)) = Some pos \<and>
         map_of (normalizeOffset (offset (options p))) ''bottom'' = Some ob \<and>
         Popup_container (state_of (Popup_update lay p)) = Some ct \<and>
         anchorClass ct = Some (a, ''popup'') \<and>
         style_transform ct = Some (a, Point_round (Point_add pos off)) \<and>
         a \<in> set anchorNames \<and>
         map_of (normalizeOffset (offset (options p))) a = Some off \<and>
         (\<not> js_lt (js_add (y pos) (y ob)) (offsetHeight lay) \<and>
          \<not> js_gt (y pos) (js_sub (height (transform m)) (offsetHeight lay)) \<and>
          \<not> js_lt (x pos) (js_half (offsetWidth lay)) \<and>
          \<not> js_gt (x pos) (js_sub (width (transform m)) (js_half (offsetWidth lay))) \<longrightarrow>
            a = ''bottom''))"
  proof
    assume h: "Popup_map p = Some m \<and> Popup_lngLat p \<noteq> None \<and> Popup_content p \<noteq> None \<and>
      \<not> truthy_string (anchor (options p)) \<and> returned (Popup_update lay p)"
    then obtain ll c where "Popup_lngLat p = Some ll" and "Popup_content p = Some c" by auto
    with h Popup_update_Returned [of p m ll c lay]
    obtain ct a off pos ob where r:
      "Popup_pos (state_of (Popup_update lay p)) = Some pos"
      "map_of (normalizeOffset (offset (options p))) ''bottom'' = Some ob"
      "a = autoAnchor pos (offsetWidth lay) (offsetHeight lay)
             (width (transform m)) (height (transform m)) ob"
      "map_of (normalizeOffset (offset (options p))) a = Some off"
      "Popup_container (state_of (Popup_update lay p)) = Some ct"
      "style_transform ct = Some (a, Point_round (Point_add pos off))"
      "anchorClass ct = Some (a, ''popup'')"
      by auto
    have names: "a \<in> set anchorNames"
      unfolding r(3) by (rule autoAnchor_in_names)
    have fallback: "\<not> js_lt (js_add (y pos) (y ob)) (offsetHeight lay) \<and>
          \<not> js_gt (y pos) (js_sub (height (transform m)) (offsetHeight lay)) \<and>
          \<not> js_lt (x pos) (js_half (offsetWidth lay)) \<and>
          \<not> js_gt (x pos) (js_sub (width (transform m)) (js_half (offsetWidth lay))) \<longrightarrow>
            a = ''bottom''"
      unfolding r(3) by (simp add: autoAnchor_def anchorComponents_def)
    from r names fallback show "\<exists>ct pos ob a off.
         Popup_pos (state_of (Popup_update lay p)) = Some pos \<and>
         map_of (normalizeOffset (offset (options p))) ''bottom'' = Some ob \<and>
         Popup_container (state_of (Popup_update lay p)) = Some ct \<and>
         anchorClass ct = Some (a, ''popup'') \<and>
         style_transform ct = Some (a, Point_round (Point_add pos off)) \<and>
         a \<in> set anchorNames \<and>
         map_of (normalizeOffset (offset (options p))) a = Some off \<and>
         (\<not> js_lt (js_add (y pos) (y ob)) (offsetHeight lay) \<and>
          \<not> js_gt (y pos) (js_sub (height (transform m)) (offsetHeight lay)) \<and>
          \<not> js_lt (x pos) (js_half (offsetWidth lay)) \<and>
          \<not> js_gt (x pos) (js_sub (width (transform m)) (js_half (offsetWidth lay))) \<longrightarrow>
            a = ''bottom'')"
      by blast
  qed
next
  show "\<not> truthy_string (anchor (options p)) \<longrightarrow> Popup_update lay p \<noteq> Thrown TypeError s"
    using Popup_update_auto_no_TypeError [of p lay s] by blast
next
  show "\<not> truthy_string (anchor (options p)) \<and>
    (Popup_container p \<noteq> None \<or> \<not> truthy_string (className (options p))) \<longrightarrow>
      returned (Popup_update lay p)"
    using Popup_update_auto_returns [of p lay] by blast
qed

theorem auto_anchor_fallback_witness:
  "Popup_map sampleCentrePopup = Some sampleMap \<and> Popup_lngLat sampleCentrePopup \<noteq> None \<and>
   Popup_content sampleCentrePopup \<noteq> None \<and>
   \<not> truthy_string (anchor (options sampleCentrePopup)) \<and>
   \<not> truthy_string (className (options sampleCentrePopup)) \<and>
   returned (Popup_update sampleLayout sampleCentrePopup) \<and>
   Popup_pos (state_of (Popup_update sampleLayout sampleCentrePopup)) =
     Some (Point (Fin 100) (Fin 50)) \<and>
   map_of (normalizeOffset (offset (options sampleCentrePopup))) ''bottom'' =
     Some (Point (Fin 0) (Fin 0)) \<and>
   \<not> js_lt (js_add (Fin 50) (Fin 0)) (Fin 20) \<and>
   \<not> js_gt (Fin 50) (js_sub (Fin 200) (Fin 20)) \<and>
   \<not> js_lt (Fin 100) (js_half (Fin 20)) \<and>
   \<not> js_gt (Fin 100) (js_sub (Fin 200) (js_half (Fin 20))) \<and>
   (\<exists>ct. Popup_container (state_of (Popup_update sampleLayout sampleCentrePopup)) = Some ct \<and>
      anchorClass ct = Some (''bottom'', ''popup'')) \<and>
   Popup_update sampleLayout sampleCentrePopup \<noteq> Thrown TypeError sampleCentrePopup"
proof -
  have h0: "Popup_map sampleCentrePopup = Some sampleMap \<and>
     Popup_lngLat sampleCentrePopup \<noteq> None \<and> Popup_content sampleCentrePopup \<noteq> None \<and>
     \<not> truthy_string (anchor (options sampleCentrePopup))"
    and cls: "\<not> truthy_string (className (options sampleCentrePopup))"
    using sampleCentrePopup_eval by simp_all
  note C4 = auto_anchor_fallback [of sampleCentrePopup sampleMap sampleLayout sampleCentrePopup]
  from C4 h0 cls have ret: "returned (Popup_update sampleLayout sampleCentrePopup)"
    by blast
  with h0 have hyps: "Popup_map sampleCentrePopup = Some sampleMap \<and>
     Popup_lngLat sampleCentrePopup \<noteq> None \<and> Popup_content sampleCentrePopup \<noteq> None \<and>
     \<not> truthy_string (anchor (options sampleCentrePopup)) \<and>
     returned (Popup_update sampleLayout sampleCentrePopup)"
    by blast
  have pos: "Popup_pos (state_of (Popup_update sampleLayout sampleCentrePopup)) =
     Some (Point (Fin 100) (Fin 50))"
    using sampleCentrePopup_update by simp
  have tbl: "map_of (normalizeOffset (offset (options sampleCentrePopup))) ''bottom'' =
     Some (Point (Fin 0) (Fin 0))"
    using sampleCentrePopup_eval by (simp add: Let_def)
  have conds: "\<not> js_lt (js_add (Fin 50) (Fin 0)) (Fin 20) \<and>
     \<not> js_gt (Fin 50) (js_sub (Fin 200) (Fin 20)) \<and>
     \<not> js_lt (Fin 100) (js_half (Fin 20)) \<and>
     \<not> js_gt (Fin 100) (js_sub (Fin 200) (js_half (Fin 20)))"
    by (simp add: js_gt_def js_sub_def)
  from C4 hyps
  obtain ct ps ob a where r:
    "Popup_pos (state_of (Popup_update sampleLayout sampleCentrePopup)) = Some ps"
    "map_of (normalizeOffset (offset (options sampleCentrePopup))) ''bottom'' = Some ob"
    "Popup_container (state_of (Popup_update sampleLayout sampleCentrePopup)) = Some ct"
    "anchorClass ct = Some (a, ''popup'')"
    "\<not> js_lt (js_add (y ps) (y ob)) (offsetHeight sampleLayout) \<and>
     \<not> js_gt (y ps) (js_sub (height (transform sampleMap)) (offsetHeight sampleLayout)) \<and>
     \<not> js_lt (x ps) (js_half (offsetWidth sampleLayout)) \<and>
     \<not> js_gt (x ps) (js_sub (width (transform sampleMap)) (js_half (offsetWidth sampleLayout))) \<longrightarrow>
       a = ''bottom''"
    and nt: "Popup_update sampleLayout sampleCentrePopup \<noteq> Thrown TypeError sampleCentrePopup"
    by blast
  from r(1) pos have ps: "ps = Point (Fin 100) (Fin 50)" by simp
  from r(2) tbl have ob: "ob = Point (Fin 0) (Fin 0)" by simp
  from r(5) conds have "a = ''bottom''"
    unfolding ps ob by (simp add: sampleLayout_def sampleMap_def)
  with r(3,4) have "\<exists>ct. Popup_container (state_of (Popup_update sampleLayout sampleCentrePopup)) =
      Some ct \<and> anchorClass ct = Some (''bottom'', ''popup'')"
    by simp
  with hyps cls pos tbl conds nt show ?thesis by blast
qed

section \<open>The update step\<close>

text \<open>
  C7. The update is a no-op, returning the popup as it is, when the map, the location or
  the content is missing; the container is touched only when all three are there.
\<close>

theorem update_renders_only_when_ready:
  "(Popup_map p = None \<or> Popup_lngLat p = None \<or> Popup_content p = None \<longrightarrow>
      Popup_update lay p = Returned p) \<and>
   (Popup_container (state_of (Popup_update lay p)) \<noteq> Popup_container p \<longrightarrow>
      Popup_map p \<noteq> None \<and> Popup_lngLat p \<noteq> None \<and> Popup_content p \<noteq> None)"
proof (rule conjI)
  show "Popup_map p = None \<or> Popup_lngLat p = None \<or> Popup_content p = None \<longrightarrow>
      Popup_update lay p = Returned p"
    using Popup_update_noop [of p lay] by blast
next
  show "Popup_container (state_of (Popup_update lay p)) \<noteq> Popup_container p \<longrightarrow>
      Popup_map p \<noteq> None \<and> Popup_lngLat p \<noteq> None \<and> Popup_content p \<noteq> None"
  proof
    assume changed: "Popup_container (state_of (Popup_update lay p)) \<noteq> Popup_container p"
    show "Popup_map p \<noteq> None \<and> Popup_lngLat p \<noteq> None \<and> Popup_content p \<noteq> None"
    proof (rule ccontr)
      assume "\<not> (Popup_map p \<noteq> None \<and> Popup_lngLat p \<noteq> None \<and> Popup_content p \<noteq> None)"
      then have "Popup_map p = None \<or> Popup_lngLat p = None \<or> Popup_content p = None"
        by blast
      then have "Popup_update lay p = Returned p"
        by (rule Popup_update_noop)
      with changed show False by simp
    qed
  qed
qed

theorem update_renders_only_when_ready_witness:
  "Popup_map (Popup_new emptyOptions) = None \<and>
   Popup_update sampleLayout (Popup_new emptyOptions) = Returned (Popup_new emptyOptions) \<and>
   Popup_container (state_of (Popup_update sampleLayout sampleAttaching)) \<noteq>
     Popup_container sampleAttaching \<and>
   Popup_map sampleAttaching \<noteq> None \<and> Popup_lngLat sampleAttaching \<noteq> None \<and>
   Popup_content sampleAttaching \<noteq> None"
proof -
  have a: "Popup_map (Popup_new emptyOptions) = None"
    using new_popup_fields by blast
  have b: "Popup_container (state_of (Popup_update sampleLayout sampleAttaching)) \<noteq>
     Popup_container sampleAttaching"
    by (simp add: sample_defs popup_defs)
  from a b update_renders_only_when_ready [of "Popup_new emptyOptions" sampleLayout]
    update_renders_only_when_ready [of sampleAttaching sampleLayout]
  show ?thesis by blast
qed

text \<open>
  C8. Whenever the update renders, the pixel position given to the container is the
  projected position of the popup's coordinate plus the entry of the normalized offset
  table for the anchor applied, each component rounded: the sum is the double sum, and
  \<open>Math.round\<close> is applied to it.
\<close>

theorem rendered_position:
  "Popup_map p = Some m \<and> Popup_lngLat p \<noteq> None \<and> Popup_content p \<noteq> None \<and>
   returned (Popup_update lay p) \<longrightarrow>
     (\<exists>ct a off wrapped pos.
        Popup_lngLat (state_of (Popup_update lay p)) = Some wrapped \<and>
        pos = project m wrapped \<and>
        Popup_pos (state_of (Popup_update lay p)) = Some pos \<and>
        Popup_container (state_of (Popup_update lay p)) = Some ct \<and>
        anchorClass ct = Some (a, ''popup'') \<and>
        map_of (normalizeOffset (offset (options p))) a = Some off \<and>
        style_transform ct =
          Some (a, Point (Math_round (js_add (x pos) (x off)))
                     (Math_round (js_add (y pos) (y off)))))"
proof
  assume h: "Popup_map p = Some m \<and> Popup_lngLat p \<noteq> None \<and> Popup_content p \<noteq> None \<and>
   returned (Popup_update lay p)"
  then obtain ll c where "Popup_lngLat p = Some ll" and "Popup_content p = Some c" by auto
  with h Popup_update_Returned [of p m ll c lay]
  show "\<exists>ct a off wrapped pos.
        Popup_lngLat (state_of (Popup_update lay p)) = Some wrapped \<and>
        pos = project m wrapped \<and>
        Popup_pos (state_of (Popup_update lay p)) = Some pos \<and>
        Popup_container (state_of (Popup_update lay p)) = Some ct \<and>
        anchorClass ct = Some (a, ''popup'') \<and>
        map_of (normalizeOffset (offset (options p))) a = Some off \<and>
        style_transform ct =
          Some (a, Point (Math_round (js_add (x pos) (x off)))
                     (Math_round (js_add (y pos) (y off))))"
    unfolding Point_round_def Point_add_def Point.sel by blast
qed

theorem rendered_position_witness:
  "Popup_map sampleOffsetPopup = Some sampleMap \<and> Popup_lngLat sampleOffsetPopup \<noteq> None \<and>
   Popup_content sampleOffsetPopup \<noteq> None \<and>
   returned (Popup_update sampleLayout sampleOffsetPopup) \<and>
   (\<exists>ct. Popup_container (state_of (Popup_update sampleLayout sampleOffsetPopup)) = Some ct \<and>
      style_transform ct = Some (''bottom'', Point (Fin 101) (Fin 30)))"
proof -
  have hyps: "Popup_map sampleOffsetPopup = Some sampleMap \<and> Popup_lngLat sampleOffsetPopup \<noteq> None \<and>
     Popup_content sampleOffsetPopup \<noteq> None \<and>
     returned (Popup_update sampleLayout sampleOffsetPopup)"
    using sampleOffsetPopup_eval sampleOffsetPopup_update by simp
  from rendered_position [of sampleOffsetPopup sampleMap sampleLayout] hyps
  obtain ct a off wrapped pos where r:
    "Popup_pos (state_of (Popup_update sampleLayout sampleOffsetPopup)) = Some pos"
    "Popup_container (state_of (Popup_update sampleLayout sampleOffsetPopup)) = Some ct"
    "anchorClass ct = Some (a, ''popup'')"
    "map_of (normalizeOffset (offset (options sampleOffsetPopup))) a = Some off"
    "style_transform ct =
       Some (a, Point (Math_round (js_add (x pos) (x off))) (Math_round (js_add (y pos) (y off))))"
    by blast
  from r(1) sampleOffsetPopup_update have pos: "pos = Point (Fin 100.5) (Fin 40.25)" by simp
  from r(2,3) sampleOffsetPopup_update have a: "a = ''bottom''" by auto
  from r(4) a sampleOffsetPopup_eval have off: "off = Point (Fin 0) (Fin (- 10))"
    by (simp add: Let_def)
  have "Math_round (js_add (Fin 100.5) (Fin 0)) = Fin 101"
    and "Math_round (js_add (Fin 40.25) (Fin (- 10))) = Fin 30"
    by (simp_all add: rnd_201_halves rnd_121_quarters)
  with r(2,5) pos a off
  have "Popup_container (state_of (Popup_update sampleLayout sampleOffsetPopup)) = Some ct \<and>
      style_transform ct = Some (''bottom'', Point (Fin 101) (Fin 30))"
    by simp
  with hyps show ?thesis by blast
qed

section \<open>Open and closed\<close>

text \<open>
  C2, as amended. \<open>isOpen\<close> says whether the popup holds a map: a new popup is
  closed, \<open>addTo\<close> opens it whether or not a location and a content are set,
  \<open>remove\<close> closes it, and setting the location or the content, or an update, leaves
  the answer as it was.
\<close>

theorem isOpen_tracks_attachment:
  "isOpen p = (Popup_map p \<noteq> None) \<and>
   \<not> isOpen (Popup_new opts) \<and>
   isOpen (state_of (addTo lay m p)) \<and>
   \<not> isOpen (Popup_remove p) \<and>
   isOpen (state_of (setLngLat lay l p)) = isOpen p \<and>
   isOpen (state_of (setDOMContent lay n p)) = isOpen p \<and>
   isOpen (state_of (Popup_update lay p)) = isOpen p"
  by (simp add: isOpen_def addTo_map Popup_remove_map setLngLat_map setDOMContent_map
      Popup_update_map new_popup_fields split: option.splits)

text \<open>
  C2 as stated fails: a new popup added to a map is reported open although it has
  neither a location nor a content.
\<close>

theorem isOpen_without_location_and_content:
  "isOpen (state_of (addTo sampleLayout sampleMap (Popup_new emptyOptions))) \<and>
   Popup_lngLat (state_of (addTo sampleLayout sampleMap (Popup_new emptyOptions))) = None \<and>
   Popup_content (state_of (addTo sampleLayout sampleMap (Popup_new emptyOptions))) = None"
  by (simp add: sample_defs popup_defs)





section \<open>Setting and reading the location\<close>

text \<open>
  C9. After \<open>setLngLat\<close>, whether its update returned or threw, \<open>getLngLat\<close>
  gives the coordinate that was set, with the same latitude and a longitude that differs
  from the one set by a multiple of 360 degrees; it is the very coordinate unless the
  popup is attached to a view that renders world copies.
\<close>

theorem setLngLat_getLngLat:
  "(\<exists>k::int. getLngLat (state_of (setLngLat lay l p)) =
      Some ((LngLat_convert l)\<lparr>lng := lng (LngLat_convert l) + 360 * of_int k\<rparr>)) \<and>
   (\<not> wrapsWorldCopies p \<longrightarrow> getLngLat (state_of (setLngLat lay l p)) = Some (LngLat_convert l))"
proof -
  define p' where "p' = p\<lparr>Popup_lngLat := Some (LngLat_convert l), Popup_pos := None\<rparr>"
  have w: "wrapsWorldCopies p' = wrapsWorldCopies p"
    by (simp add: p'_def wrapsWorldCopies_def)
  have "Popup_lngLat p' = Some (LngLat_convert l)" by (simp add: p'_def)
  from Popup_update_lngLat [OF this, of lay] obtain k :: int where
    k: "Popup_lngLat (state_of (Popup_update lay p')) =
          Some ((LngLat_convert l)\<lparr>lng := lng (LngLat_convert l) + 360 * of_int k\<rparr>)"
    and k0: "wrapsWorldCopies p' \<or> k = 0"
    by blast
  have g: "getLngLat (state_of (setLngLat lay l p)) = Popup_lngLat (state_of (Popup_update lay p'))"
    by (simp add: getLngLat_def setLngLat_def p'_def)
  show ?thesis
  proof (rule conjI)
    show "\<exists>k::int. getLngLat (state_of (setLngLat lay l p)) =
      Some ((LngLat_convert l)\<lparr>lng := lng (LngLat_convert l) + 360 * of_int k\<rparr>)"
      using g k by auto
  next
    show "\<not> wrapsWorldCopies p \<longrightarrow> getLngLat (state_of (setLngLat lay l p)) = Some (LngLat_convert l)"
    proof
      assume "\<not> wrapsWorldCopies p"
      with k0 w have "k = 0" by simp
      with g k show "getLngLat (state_of (setLngLat lay l p)) = Some (LngLat_convert l)"
        by simp
    qed
  qed
qed

theorem setLngLat_getLngLat_witness:
  "\<not> wrapsWorldCopies sampleOpen \<and>
   getLngLat (state_of (setLngLat sampleLayout (LngLatLiteral 370 10) sampleOpen)) =
     Some \<lparr>lng = 370, lat = 10\<rparr> \<and>
   wrapsWorldCopies sampleWrapped \<and>
   getLngLat (state_of (setLngLat sampleLayout (LngLatArray 370 10) sampleWrapped)) =
     Some \<lparr>lng = 10, lat = 10\<rparr>"
  using setLngLat_getLngLat [of sampleLayout "LngLatLiteral 370 10" sampleOpen]
    sampleOpen_not_wrapping sampleWrapped_wrapping sampleWrapped_setLngLat
  by simp


end
